theory Spec2Isabelle
  imports Main
begin

section \<open>Reflect MCP server: OAuth handler and MCP tools\<close>

text \<open>
  The development follows the TypeScript sources: \<^verbatim>\<open>reflect-handler.ts\<close> (the Hono routes
  \<^verbatim>\<open>GET /authorize\<close>, \<^verbatim>\<open>POST /authorize\<close> and \<^verbatim>\<open>GET /oauth/callback\<close>) and
  \<^verbatim>\<open>index.ts\<close> (\<^verbatim>\<open>getValidDate\<close> and the two MCP tools).
  The helper module \<^verbatim>\<open>workers-oauth-utils\<close> that the routes import is not among the
  sources; its functions are modelled from the specification and marked so.
\<close>

subsection \<open>JavaScript values\<close>

text \<open>A JavaScript string is falsy exactly when it is empty.\<close>

definition truthy :: "string \<Rightarrow> bool" where
  "truthy s = (s \<noteq> [])"

text \<open>
  Thrown values. The routes distinguish \<^verbatim>\<open>error instanceof OAuthError\<close> from any other
  thrown value, of which they read at most \<^verbatim>\<open>error.message\<close>.
\<close>

datatype oauth_error_kind = CSRFMismatch | IntegrityError | NoBinding | UnknownOrExpiredState

datatype error = OAuthError oauth_error_kind | Error string string

text \<open>
  \<open>Error name message\<close> is any other thrown error (\<^verbatim>\<open>Error\<close>, \<^verbatim>\<open>TypeError\<close>, ...).
  \<^verbatim>\<open>String(e)\<close> is \<^verbatim>\<open>Error.prototype.toString\<close>.
\<close>

definition error_toString :: "string \<Rightarrow> string \<Rightarrow> string" where
  "error_toString name msg =
     (if name = [] then msg else if msg = [] then name else name @ '': '' @ msg)"

text \<open>Reading a property of \<^verbatim>\<open>null\<close> throws a \<^verbatim>\<open>TypeError\<close>; the message is V8's.\<close>

definition null_property_error :: "string \<Rightarrow> error" where
  "null_property_error p =
     Error ''TypeError''
       (''Cannot read properties of null (reading '' @ [CHR 0x27] @ p @ [CHR 0x27] @ '')'')"

subsection \<open>Requests, cookies and the pending authorization request\<close>

type_synonym cookies = "string \<rightharpoonup> string"

text \<open>
  \<^verbatim>\<open>AuthRequest\<close> of the OAuth provider library; the routes read \<^verbatim>\<open>clientId\<close> and
  \<^verbatim>\<open>scope\<close> and hand the rest on unchanged.
\<close>

record auth_request =
  responseType :: string
  clientId :: string
  redirectUri :: string
  scope :: "string list"
  state :: string

text \<open>
  A request as the routes read it: its URL, its cookies, its query parameters and what
  \<^verbatim>\<open>formData()\<close> resolves to: the form fields (strings), or \<open>Inl\<close> the thrown value when
  the body is not a form and the promise rejects.
\<close>

record request =
  url :: string
  cookies :: cookies
  query :: "string \<rightharpoonup> string"
  formData :: "error + (string \<rightharpoonup> string)"

text \<open>
  A \<^verbatim>\<open>Set-Cookie\<close> header as the helper module produces it: cookie name, value and
  lifetime in seconds (\<open>0\<close> expires the cookie at once). All cookies are HTTP-only, secure
  and host-scoped; the header travels as one string.
\<close>

record set_cookie =
  sc_name :: string
  sc_value :: string
  sc_max_age :: nat

definition digit_char :: "nat \<Rightarrow> char" where
  "digit_char n = ''0123456789'' ! (n mod 10)"

text \<open>\<^verbatim>\<open>String(n)\<close> for a non-negative integer: its decimal digits.\<close>

fun show_nat :: "nat \<Rightarrow> string" where
  "show_nat n = (if n < 10 then [digit_char n] else show_nat (n div 10) @ [digit_char (n mod 10)])"

declare show_nat.simps [simp del]

definition cookieHeader :: "set_cookie \<Rightarrow> string" where
  "cookieHeader c =
     sc_name c @ ''='' @ sc_value c @ ''; HttpOnly; Secure; Path=/; SameSite=Lax; Max-Age=''
       @ show_nat (sc_max_age c)"

subsection \<open>The helper module, modelled from the specification\<close>

text \<open>
  Modelled from the spec: the Cookie Cipher of \<^verbatim>\<open>workers-oauth-utils\<close> (section 4.1),
  which is missing from the sources. \<open>seal plaintext key\<close> gives the opaque string,
  \<open>unseal opaque key\<close> gives the plaintext or fails; every failure is the one
  \<open>IntegrityError\<close>. The cipher is a parameter of everything that uses it.
\<close>

record 'a cipher =
  seal :: "'a \<Rightarrow> string \<Rightarrow> string"
  unseal :: "string \<Rightarrow> string \<Rightarrow> 'a option"

definition cipher_open :: "'a cipher \<Rightarrow> string \<Rightarrow> string \<Rightarrow> error + 'a" where
  "cipher_open ci opaque key =
     (case unseal ci opaque key of
        None \<Rightarrow> Inl (OAuthError IntegrityError)
      | Some p \<Rightarrow> Inr p)"

text \<open>What a cipher owes its users: what was sealed under a key opens under that key.\<close>

definition cipher_roundtrip :: "'a cipher \<Rightarrow> bool" where
  "cipher_roundtrip ci = (\<forall>p key. unseal ci (seal ci p key) key = Some p)"

text \<open>
  Modelled from the spec: the CSRF Guard (section 4.2), missing from the sources.
  The comparison is timing-safe: it looks at every position and only accumulates whether
  one differed.
\<close>

definition CSRF_COOKIE :: string where
  "CSRF_COOKIE = ''__Host-CSRF_TOKEN''"

definition CSRF_FIELD :: string where
  "CSRF_FIELD = ''csrf_token''"

fun accumulate_diff :: "bool \<Rightarrow> string \<Rightarrow> string \<Rightarrow> bool" where
  "accumulate_diff d [] [] = d"
| "accumulate_diff d (x # xs) (y # ys) = accumulate_diff (d \<or> x \<noteq> y) xs ys"
| "accumulate_diff d _ _ = True"

definition timingSafeEqual :: "string \<Rightarrow> string \<Rightarrow> bool" where
  "timingSafeEqual a b = (length a = length b \<and> \<not> accumulate_diff False a b)"

definition generateCSRFProtection :: "string \<Rightarrow> string \<times> set_cookie" where
  "generateCSRFProtection random =
     (random, \<lparr>sc_name = CSRF_COOKIE, sc_value = random, sc_max_age = 600\<rparr>)"

definition validateCSRFToken :: "(string \<rightharpoonup> string) \<Rightarrow> request \<Rightarrow> error + unit" where
  "validateCSRFToken form req =
     (case cookies req CSRF_COOKIE of
        None \<Rightarrow> Inl (OAuthError CSRFMismatch)
      | Some c \<Rightarrow>
          (case form CSRF_FIELD of
             None \<Rightarrow> Inl (OAuthError CSRFMismatch)
           | Some t \<Rightarrow>
               if timingSafeEqual t c then Inr () else Inl (OAuthError CSRFMismatch)))"

text \<open>
  Modelled from the spec: the State Store (section 4.4), missing from the sources.
  The durable key-value store maps a state token to the pending request and the time
  (in seconds) at which the entry expires; an expired entry reads as an absent one.
  The fresh random token and the clock are inputs.
\<close>

type_synonym kv = "string \<rightharpoonup> (auth_request \<times> nat)"

definition STATE_TTL :: nat where
  "STATE_TTL = 600"

definition kv_get :: "kv \<Rightarrow> nat \<Rightarrow> string \<Rightarrow> auth_request option" where
  "kv_get store now k =
     (case store k of
        None \<Rightarrow> None
      | Some (v, expires) \<Rightarrow> if now < expires then Some v else None)"

definition createOAuthState :: "string \<Rightarrow> nat \<Rightarrow> auth_request \<Rightarrow> kv \<Rightarrow> string \<times> kv" where
  "createOAuthState random now oauthReqInfo store =
     (random, store(random \<mapsto> (oauthReqInfo, now + STATE_TTL)))"

definition consume :: "nat \<Rightarrow> string \<Rightarrow> kv \<Rightarrow> error + (auth_request \<times> kv)" where
  "consume now stateToken store =
     (case kv_get store now stateToken of
        None \<Rightarrow> Inl (OAuthError UnknownOrExpiredState)
      | Some r \<Rightarrow> Inr (r, store(stateToken := None)))"

text \<open>
  Modelled from the spec: the Approved-Client Ledger (section 4.3), missing from the
  sources. The ledger cookie holds the sealed list of approved client identifiers; a
  missing cookie and one that does not open both read as the empty ledger.
\<close>

definition APPROVED_COOKIE :: string where
  "APPROVED_COOKIE = ''__Host-APPROVED_CLIENTS''"

definition getApprovedClients :: "string list cipher \<Rightarrow> request \<Rightarrow> string \<Rightarrow> string list" where
  "getApprovedClients ci req key =
     (case cookies req APPROVED_COOKIE of
        None \<Rightarrow> []
      | Some v \<Rightarrow>
          (case cipher_open ci v key of
             Inl e \<Rightarrow> []
           | Inr ids \<Rightarrow> ids))"

definition isClientApproved :: "string list cipher \<Rightarrow> request \<Rightarrow> string \<Rightarrow> string \<Rightarrow> bool" where
  "isClientApproved ci req cid key =
     (case cookies req APPROVED_COOKIE of
        None \<Rightarrow> False
      | Some v \<Rightarrow>
          (case cipher_open ci v key of
             Inl e \<Rightarrow> False
           | Inr ids \<Rightarrow> cid \<in> set ids))"

definition addApprovedClient :: "string list cipher \<Rightarrow> request \<Rightarrow> string \<Rightarrow> string \<Rightarrow> set_cookie" where
  "addApprovedClient ci req cid key =
     \<lparr>sc_name = APPROVED_COOKIE,
      sc_value = seal ci (List.insert cid (getApprovedClients ci req key)) key,
      sc_max_age = 31536000\<rparr>"

text \<open>
  Modelled from the spec: the Session Binder (section 4.5), missing from the sources.
  The cookie's name is the one the callback route's comment gives. The routes pass no key
  to \<^verbatim>\<open>bindStateToSession\<close> and \<^verbatim>\<open>validateOAuthState\<close>; the cipher works under the
  configured secret, which the model passes along.
\<close>

definition STATE_COOKIE :: string where
  "STATE_COOKIE = ''__Host-CONSENTED_STATE''"

definition bindStateToSession :: "string cipher \<Rightarrow> string \<Rightarrow> string \<Rightarrow> set_cookie" where
  "bindStateToSession ci key stateToken =
     \<lparr>sc_name = STATE_COOKIE, sc_value = seal ci stateToken key, sc_max_age = 600\<rparr>"

definition unbind :: set_cookie where
  "unbind = \<lparr>sc_name = STATE_COOKIE, sc_value = [], sc_max_age = 0\<rparr>"

definition readBoundToken :: "string cipher \<Rightarrow> cookies \<Rightarrow> string \<Rightarrow> error + string" where
  "readBoundToken ci cks key =
     (case cks STATE_COOKIE of
        None \<Rightarrow> Inl (OAuthError NoBinding)
      | Some v \<Rightarrow>
          (case cipher_open ci v key of
             Inl e \<Rightarrow> Inl (OAuthError NoBinding)
           | Inr t \<Rightarrow> Inr t))"

text \<open>
  Modelled from the spec: the Callback Validator (sections 2, 4.6 and 8), missing from the
  sources. It proves that the state token of the inbound callback was the one bound to
  this browser and exists in the store: read the bound token from the cookie, reject a
  callback whose \<^verbatim>\<open>state\<close> parameter is not that token, consume the token in the store,
  and hand back the pending request with the header that clears the cookie. The route's
  own comment says the same: the state parameter matches both a valid state token in KV
  and the cookie. The token of the cookie is the key of the lookup.
\<close>

record validated =
  oauthReqInfo :: auth_request
  clearCookie :: string

definition validateOAuthState ::
  "string cipher \<Rightarrow> string \<Rightarrow> nat \<Rightarrow> request \<Rightarrow> kv \<Rightarrow> (error + validated) \<times> kv" where
  "validateOAuthState ci key now req store =
     (case readBoundToken ci (cookies req) key of
        Inl e \<Rightarrow> (Inl e, store)
      | Inr boundStateToken \<Rightarrow>
          if query req ''state'' \<noteq> Some boundStateToken
          then (Inl (OAuthError NoBinding), store)
          else
            (case consume now boundStateToken store of
               Inl e \<Rightarrow> (Inl e, store)
             | Inr (pending, store') \<Rightarrow>
                 (Inr \<lparr>oauthReqInfo = pending, clearCookie = cookieHeader unbind\<rparr>, store')))"

text \<open>The browser's side of a \<^verbatim>\<open>Set-Cookie\<close> header: store the value, or drop an expired cookie.\<close>

definition browser_store :: "cookies \<Rightarrow> set_cookie \<Rightarrow> cookies" where
  "browser_store jar c =
     (if sc_max_age c = 0 then jar(sc_name c := None) else jar(sc_name c \<mapsto> sc_value c))"

subsection \<open>Responses, headers and the collaborators of the routes\<close>

record dialog_options =
  client :: "string option"
  csrfToken :: string
  server_description :: string
  server_name :: string
  setCookie :: string
  dialog_state :: auth_request

datatype body = NoBody | Text string | ApprovalDialog request dialog_options

record response =
  status :: nat
  headers :: "(string \<times> string) list"
  body :: body

text \<open>
  Hono's \<^verbatim>\<open>c.text(text, status)\<close>: a plain-text response with that status and no header
  but its content type. Header names are written in lower case throughout, as a
  \<^verbatim>\<open>Headers\<close> object keeps them.
\<close>

definition c_text :: "string \<Rightarrow> nat \<Rightarrow> response" where
  "c_text t st =
     \<lparr>status = st, headers = [(''content-type'', ''text/plain; charset=UTF-8'')], body = Text t\<rparr>"

text \<open>
  \<^verbatim>\<open>Headers.append\<close> adds an entry, \<^verbatim>\<open>Headers.set\<close> replaces the entries of that name.
  \<^verbatim>\<open>Object.fromEntries\<close> defines one property per entry in turn, so of two entries with
  one name the later value stays, at the place of the first; iterating a \<^verbatim>\<open>Headers\<close>
  object gives each \<^verbatim>\<open>Set-Cookie\<close> entry on its own. An object spread followed by a
  property sets that property the same way.
\<close>

definition Headers_append :: "(string \<times> string) list \<Rightarrow> string \<Rightarrow> string \<Rightarrow> (string \<times> string) list" where
  "Headers_append hs name v = hs @ [(name, v)]"

definition Headers_set :: "(string \<times> string) list \<Rightarrow> string \<Rightarrow> string \<Rightarrow> (string \<times> string) list" where
  "Headers_set hs name v = filter (\<lambda>h. fst h \<noteq> name) hs @ [(name, v)]"

fun set_property :: "(string \<times> string) list \<Rightarrow> string \<Rightarrow> string \<Rightarrow> (string \<times> string) list" where
  "set_property [] k v = [(k, v)]"
| "set_property ((k', v') # obj) k v =
     (if k' = k then (k, v) # obj else (k', v') # set_property obj k v)"

definition Object_fromEntries :: "(string \<times> string) list \<Rightarrow> (string \<times> string) list" where
  "Object_fromEntries entries = foldl (\<lambda>obj e. set_property obj (fst e) (snd e)) [] entries"

text \<open>
  \<^verbatim>\<open>Props\<close> as the source declares it (what the tools read from \<^verbatim>\<open>this.props\<close>), and the
  arguments of the upstream URL.
\<close>

record Props =
  accessTokenId :: "string option"
  accessToken :: string

record upstream_params =
  client_id :: string
  redirect_uri :: string
  up_scope :: string
  upstream_url :: string
  response_type :: string
  up_state :: string

text \<open>
  \<^verbatim>\<open>fetch\<close>: the request sent, and what comes back. A request body is either the string
  of \<^verbatim>\<open>JSON.stringify\<close> or the fields given to \<^verbatim>\<open>URLSearchParams\<close>. Of a response the
  code reads \<^verbatim>\<open>ok\<close>, \<^verbatim>\<open>status\<close>, \<^verbatim>\<open>text()\<close> and \<^verbatim>\<open>json()\<close>. Parsed JSON is
  \<^verbatim>\<open>null\<close>, a string, an object by its properties (each name once, values of any
  kind), or another value (a number, a boolean, an array) kept as the text that
  \<^verbatim>\<open>JSON.stringify\<close> gives for it. A property read throws on \<^verbatim>\<open>null\<close>, gives the
  property's value on an object and \<open>None\<close>, for \<^verbatim>\<open>undefined\<close>, where there is no such
  property. Of the values, \<^verbatim>\<open>null\<close>, the empty string, zero and \<^verbatim>\<open>false\<close> are falsy.
\<close>

datatype fetch_body = NoRequestBody | UrlEncoded "(string \<times> string) list" | Raw string

record fetch_request =
  fq_url :: string
  fq_method :: string
  fq_headers :: "(string \<times> string) list"
  fq_body :: fetch_body

datatype json = JNull | JString string | JOther string | JObj "(string \<times> json) list"

record fetch_response =
  fr_ok :: bool
  fr_status :: nat
  fr_text :: string
  fr_json :: "error + json"

fun json_get :: "json \<Rightarrow> string \<Rightarrow> error + json option" where
  "json_get JNull k = Inl (null_property_error k)"
| "json_get (JObj ps) k = Inr (map_of ps k)"
| "json_get (JString s) k = Inr None"
| "json_get (JOther s) k = Inr None"

fun truthy_json :: "json \<Rightarrow> bool" where
  "truthy_json JNull = False"
| "truthy_json (JString s) = truthy s"
| "truthy_json (JOther s) = (s \<noteq> ''0'' \<and> s \<noteq> ''false'')"
| "truthy_json (JObj ps) = True"

text \<open>
  The options of \<^verbatim>\<open>completeAuthorization\<close>. The token and its identifier are the values
  read from the upstream JSON, whatever their kind; the identifier may be
  \<^verbatim>\<open>undefined\<close>.
\<close>

record granted =
  granted_accessToken :: json
  granted_accessTokenId :: "json option"

record complete_options =
  metadata_label :: "json option"
  props :: granted
  co_request :: auth_request
  co_scope :: "string list"
  userId :: "json option"

text \<open>
  \<^verbatim>\<open>JSON.parse(atob(encodedState))\<close> of the form's state: it throws, or gives \<^verbatim>\<open>null\<close>, or
  gives a value whose \<^verbatim>\<open>oauthReqInfo\<close> is a pending request or nothing of use.
\<close>

datatype decoded = DecodeThrows | DecodedNull | Decoded "auth_request option"

text \<open>
  What the routes call and do not define: the OAuth provider (\<^verbatim>\<open>parseAuthRequest\<close>, which
  reads the authorization parameters of the URL, \<^verbatim>\<open>lookupClient\<close>,
  \<^verbatim>\<open>completeAuthorization\<close>), the decoding of the form's state,
  \<^verbatim>\<open>getUpstreamAuthorizeUrl\<close>, the callback URL derived from the request's URL,
  \<^verbatim>\<open>fetch\<close>, \<^verbatim>\<open>OAuthError.toResponse\<close>, and the two uses of the Cookie Cipher.
\<close>

record collab =
  parseAuthRequest :: "string \<Rightarrow> (string \<rightharpoonup> string) \<Rightarrow> error + auth_request"
  lookupClient :: "string \<Rightarrow> error + string option"
  completeAuthorization :: "complete_options \<Rightarrow> error + string"
  decodeState :: "string \<Rightarrow> decoded"
  getUpstreamAuthorizeUrl :: "upstream_params \<Rightarrow> string"
  callbackUrl :: "string \<Rightarrow> string"
  fetch :: "fetch_request \<Rightarrow> error + fetch_response"
  toResponse :: "oauth_error_kind \<Rightarrow> response"
  ledger_cipher :: "string list cipher"
  binding_cipher :: "string cipher"

record env =
  COOKIE_ENCRYPTION_KEY :: string
  REFLECT_CLIENT_ID :: string
  REFLECT_CLIENT_SECRET :: string

text \<open>
  Modelled from the spec: \<^verbatim>\<open>renderApprovalDialog\<close> of \<^verbatim>\<open>workers-oauth-utils\<close>, missing
  from the sources. The page is kept as the request and the options it is rendered from;
  the response sets the CSRF cookie it was given.
\<close>

definition renderApprovalDialog :: "request \<Rightarrow> dialog_options \<Rightarrow> response" where
  "renderApprovalDialog req opts =
     \<lparr>status = 200,
      headers = [(''content-type'', ''text/html; charset=utf-8''), (''set-cookie'', setCookie opts)],
      body = ApprovalDialog req opts\<rparr>"

subsection \<open>The routes of \<^verbatim>\<open>reflect-handler.ts\<close>\<close>

text \<open>
  \<^verbatim>\<open>GET /authorize\<close>. \<open>Inl\<close> is an error the route does not catch. The branch on
  \<^verbatim>\<open>isClientApproved\<close> is empty in the source.
\<close>

definition authorize_get :: "collab \<Rightarrow> env \<Rightarrow> string \<Rightarrow> request \<Rightarrow> error + response" where
  "authorize_get co e random req =
     (case parseAuthRequest co (url req) (query req) of
        Inl err \<Rightarrow> Inl err
      | Inr info \<Rightarrow>
          if \<not> truthy (clientId info) then Inr (c_text ''Invalid request'' 400)
          else
            let skipped =
                  (if isClientApproved (ledger_cipher co) req (clientId info) (COOKIE_ENCRYPTION_KEY e)
                   then () else ());
                csrf = generateCSRFProtection random
            in (case lookupClient co (clientId info) of
                  Inl err \<Rightarrow> Inl err
                | Inr cl \<Rightarrow>
                    Inr (renderApprovalDialog req
                      \<lparr>client = cl,
                       csrfToken = fst csrf,
                       server_description = ''This MCP Server is For Reflect OAuth.'',
                       server_name = ''Reflect MCP Server'',
                       setCookie = cookieHeader (snd csrf),
                       dialog_state = info\<rparr>)))"

definition redirectToReflect ::
  "collab \<Rightarrow> env \<Rightarrow> request \<Rightarrow> string \<Rightarrow> (string \<times> string) list \<Rightarrow> response" where
  "redirectToReflect co e req stateToken hs =
     \<lparr>status = 302,
      headers = set_property hs ''location''
        (getUpstreamAuthorizeUrl co
           \<lparr>client_id = REFLECT_CLIENT_ID e,
            redirect_uri = callbackUrl co (url req),
            up_scope = ''read:graph,write:graph'',
            upstream_url = ''https://reflect.app/oauth'',
            response_type = ''code'',
            up_state = stateToken\<rparr>),
      body = NoBody\<rparr>"

text \<open>\<^verbatim>\<open>POST /authorize\<close>: the body of the \<^verbatim>\<open>try\<close>, then the \<^verbatim>\<open>catch\<close>.\<close>

definition authorize_post_try ::
  "collab \<Rightarrow> env \<Rightarrow> string \<Rightarrow> nat \<Rightarrow> request \<Rightarrow> kv \<Rightarrow> (error + response) \<times> kv" where
  "authorize_post_try co e random now req store =
     (case formData req of
        Inl err \<Rightarrow> (Inl err, store)
      | Inr form \<Rightarrow>
          (case validateCSRFToken form req of
             Inl err \<Rightarrow> (Inl err, store)
           | Inr u \<Rightarrow>
               (case form ''state'' of
                  None \<Rightarrow> (Inr (c_text ''Missing state in form data'' 400), store)
                | Some encodedState \<Rightarrow>
                    if \<not> truthy encodedState
                    then (Inr (c_text ''Missing state in form data'' 400), store)
                    else
                      (case decodeState co encodedState of
                         DecodeThrows \<Rightarrow> (Inr (c_text ''Invalid state data'' 400), store)
                       | DecodedNull \<Rightarrow> (Inl (null_property_error ''oauthReqInfo''), store)
                       | Decoded None \<Rightarrow> (Inr (c_text ''Invalid request'' 400), store)
                       | Decoded (Some info) \<Rightarrow>
                           if \<not> truthy (clientId info)
                           then (Inr (c_text ''Invalid request'' 400), store)
                           else
                             let approvedClientCookie =
                                   cookieHeader (addApprovedClient (ledger_cipher co) req
                                     (clientId info) (COOKIE_ENCRYPTION_KEY e));
                                 created = createOAuthState random now info store;
                                 sessionCookie =
                                   cookieHeader (bindStateToSession (binding_cipher co)
                                     (COOKIE_ENCRYPTION_KEY e) (fst created));
                                 hs = Headers_append
                                        (Headers_append [] ''set-cookie'' approvedClientCookie)
                                        ''set-cookie'' sessionCookie
                             in (Inr (redirectToReflect co e req (fst created)
                                        (Object_fromEntries hs)),
                                 snd created)))))"

definition authorize_post ::
  "collab \<Rightarrow> env \<Rightarrow> string \<Rightarrow> nat \<Rightarrow> request \<Rightarrow> kv \<Rightarrow> response \<times> kv" where
  "authorize_post co e random now req store =
     (case authorize_post_try co e random now req store of
        (Inr resp, store') \<Rightarrow> (resp, store')
      | (Inl (OAuthError k), store') \<Rightarrow> (toResponse co k, store')
      | (Inl (Error name msg), store') \<Rightarrow>
          (c_text (''Internal server error: '' @ msg) 500, store'))"

text \<open>
  \<^verbatim>\<open>GET /oauth/callback\<close>: \<open>callback_after\<close> is the route from the outcome of
  \<^verbatim>\<open>validateOAuthState\<close> on, \<open>exchange\<close> the token exchange and \<open>complete\<close> the final
  redirect. \<open>Inl\<close> is an error the route does not catch: a rejected \<^verbatim>\<open>fetch\<close>, a body
  that is not JSON, a failing \<^verbatim>\<open>completeAuthorization\<close>.
\<close>

definition exchange_request :: "collab \<Rightarrow> env \<Rightarrow> request \<Rightarrow> string \<Rightarrow> fetch_request" where
  "exchange_request co e req code =
     \<lparr>fq_url = ''https://reflect.app/api/oauth/token'',
      fq_method = ''POST'',
      fq_headers = [(''Content-Type'', ''application/x-www-form-urlencoded'')],
      fq_body = UrlEncoded
        [(''grant_type'', ''authorization_code''),
         (''code'', code),
         (''client_id'', REFLECT_CLIENT_ID e),
         (''client_secret'', REFLECT_CLIENT_SECRET e),
         (''redirect_uri'', callbackUrl co (url req))]\<rparr>"

definition complete ::
  "collab \<Rightarrow> validated \<Rightarrow> json \<Rightarrow> json option \<Rightarrow> error + response" where
  "complete co result token tokenId =
     (case completeAuthorization co
             \<lparr>metadata_label = tokenId,
              props = \<lparr>granted_accessToken = token, granted_accessTokenId = tokenId\<rparr>,
              co_request = oauthReqInfo result,
              co_scope = scope (oauthReqInfo result),
              userId = tokenId\<rparr> of
        Inl err \<Rightarrow> Inl err
      | Inr redirectTo \<Rightarrow>
          Inr \<lparr>status = 302,
               headers =
                 (if truthy (clearCookie result)
                  then Headers_set [(''location'', redirectTo)] ''set-cookie'' (clearCookie result)
                  else [(''location'', redirectTo)]),
               body = NoBody\<rparr>)"

definition exchange ::
  "collab \<Rightarrow> env \<Rightarrow> request \<Rightarrow> validated \<Rightarrow> string \<Rightarrow> error + response" where
  "exchange co e req result code =
     (case fetch co (exchange_request co e req code) of
        Inl err \<Rightarrow> Inl err
      | Inr resp \<Rightarrow>
          if \<not> fr_ok resp
          then Inr (c_text (''Failed to fetch access token: '' @ show_nat (fr_status resp)
                              @ '' '' @ fr_text resp) 500)
          else
            (case fr_json resp of
               Inl err \<Rightarrow> Inl err
             | Inr data \<Rightarrow>
                 (case json_get data ''access_token'' of
                    Inl err \<Rightarrow> Inl err
                  | Inr access_token \<Rightarrow>
                      (case json_get data ''access_token_id'' of
                         Inl err \<Rightarrow> Inl err
                       | Inr access_token_id \<Rightarrow>
                           (case access_token of
                              None \<Rightarrow> Inr (c_text ''Missing access token'' 400)
                            | Some token \<Rightarrow>
                                if \<not> truthy_json token
                                then Inr (c_text ''Missing access token'' 400)
                                else complete co result token access_token_id)))))"

definition callback_after ::
  "collab \<Rightarrow> env \<Rightarrow> request \<Rightarrow> error + validated \<Rightarrow> error + response" where
  "callback_after co e req validation =
     (case validation of
        Inl (OAuthError k) \<Rightarrow> Inr (toResponse co k)
      | Inl (Error name msg) \<Rightarrow> Inr (c_text ''Internal server error'' 500)
      | Inr result \<Rightarrow>
          if \<not> truthy (clientId (oauthReqInfo result))
          then Inr (c_text ''Invalid OAuth request data'' 400)
          else
            (case query req ''code'' of
               None \<Rightarrow> Inr (c_text ''Missing code'' 400)
             | Some code \<Rightarrow>
                 if \<not> truthy code then Inr (c_text ''Missing code'' 400)
                 else exchange co e req result code))"

definition oauth_callback ::
  "collab \<Rightarrow> env \<Rightarrow> nat \<Rightarrow> request \<Rightarrow> kv \<Rightarrow> (error + response) \<times> kv" where
  "oauth_callback co e now req store =
     (case validateOAuthState (binding_cipher co) (COOKIE_ENCRYPTION_KEY e) now req store of
        (validation, store') \<Rightarrow> (callback_after co e req validation, store'))"

subsection \<open>\<^verbatim>\<open>index.ts\<close>: \<^verbatim>\<open>getValidDate\<close>\<close>

text \<open>
  The regular expression \<^verbatim>\<open>/^\d{4}-\d{2}-\d{2}$/\<close>: a sequence of character classes that
  the whole string has to match, one character each (\<^verbatim>\<open>\d\<close> is an ASCII digit, the
  anchors have no multiline flag).
\<close>

datatype char_class = Digit | Lit char

fun class_matches :: "char_class \<Rightarrow> char \<Rightarrow> bool" where
  "class_matches Digit c = (c \<in> set ''0123456789'')"
| "class_matches (Lit l) c = (c = l)"

definition dateRegex :: "char_class list" where
  "dateRegex =
     replicate 4 Digit @ [Lit (CHR ''-'')] @ replicate 2 Digit @ [Lit (CHR ''-'')] @ replicate 2 Digit"

definition regex_test :: "char_class list \<Rightarrow> string \<Rightarrow> bool" where
  "regex_test re s = list_all2 class_matches re s"

text \<open>
  \<^verbatim>\<open>!isNaN(new Date(dateInput).getTime())\<close> for a string that passed the test above, as
  V8, the engine of the Workers runtime, parses it. V8 first reads the string as an
  ECMAScript date-time string: a four-digit year, a month 01 to 12 and a day 01 to 31;
  a day past the end of its month is carried into the next month, so the time value is a
  number. Where the month or the day is out of that range, V8 falls back to its legacy
  parser, which has the three numbers of the string and reads them year first only when
  the first is not itself a day number (1 to 31), and otherwise as month, day and year.
  Either reading gives a time value exactly when its month is 1 to 12 and its day is
  1 to 31.
\<close>

definition digit_value :: "char \<Rightarrow> nat" where
  "digit_value c = of_char c - 48"

definition number_value :: "string \<Rightarrow> nat" where
  "number_value ds = foldl (\<lambda>n c. 10 * n + digit_value c) 0 ds"

definition IsMonth :: "nat \<Rightarrow> bool" where
  "IsMonth n = (1 \<le> n \<and> n \<le> 12)"

definition IsDay :: "nat \<Rightarrow> bool" where
  "IsDay n = (1 \<le> n \<and> n \<le> 31)"

definition legacy_date_valid :: "nat \<Rightarrow> nat \<Rightarrow> nat \<Rightarrow> bool" where
  "legacy_date_valid a b c =
     (if \<not> IsDay a then IsMonth b \<and> IsDay c
      else IsMonth a \<and> IsDay b)"

fun Date_parse_valid :: "string \<Rightarrow> bool" where
  "Date_parse_valid [y1, y2, y3, y4, h1, m1, m2, h2, d1, d2] =
     (let year = number_value [y1, y2, y3, y4];
          month = number_value [m1, m2];
          day = number_value [d1, d2]
      in if IsMonth month \<and> IsDay day then True
         else legacy_date_valid year month day)"
| "Date_parse_valid s = False"

text \<open>
  A \<^verbatim>\<open>Date\<close> object by its UTC fields, as \<^verbatim>\<open>toISOString\<close> reads them (month 1 to 12
  here). Years 0 to 9999 print with four digits, all others with a sign and six.
\<close>

record js_date =
  utc_year :: int
  utc_month :: nat
  utc_day :: nat
  utc_hours :: nat
  utc_minutes :: nat
  utc_seconds :: nat
  utc_milliseconds :: nat

definition pad :: "nat \<Rightarrow> nat \<Rightarrow> string" where
  "pad width n = replicate (width - length (show_nat n)) (CHR ''0'') @ show_nat n"

definition year_string :: "int \<Rightarrow> string" where
  "year_string y =
     (if 0 \<le> y \<and> y \<le> 9999 then pad 4 (nat y)
      else (if y < 0 then ''-'' else ''+'') @ pad 6 (nat \<bar>y\<bar>))"

definition toISOString :: "js_date \<Rightarrow> string" where
  "toISOString d =
     year_string (utc_year d) @ ''-'' @ pad 2 (utc_month d) @ ''-'' @ pad 2 (utc_day d)
       @ ''T'' @ pad 2 (utc_hours d) @ '':'' @ pad 2 (utc_minutes d) @ '':''
       @ pad 2 (utc_seconds d) @ ''.'' @ pad 3 (utc_milliseconds d) @ ''Z''"

text \<open>\<^verbatim>\<open>s.split(sep)[0]\<close>: the part of the string before the first separator.\<close>

definition split_first :: "char \<Rightarrow> string \<Rightarrow> string" where
  "split_first sep s = takeWhile (\<lambda>c. c \<noteq> sep) s"

text \<open>\<open>now\<close> is what \<^verbatim>\<open>new Date()\<close> gives; an absent argument is \<open>None\<close>.\<close>

definition getValidDate :: "js_date \<Rightarrow> string option \<Rightarrow> string" where
  "getValidDate now dateInput =
     (let fallback = split_first (CHR ''T'') (toISOString now)
      in case dateInput of
           None \<Rightarrow> fallback
         | Some s \<Rightarrow>
             if truthy s
             then (if regex_test dateRegex s
                   then (if Date_parse_valid s then s else fallback)
                   else fallback)
             else fallback)"

text \<open>
  What the documentation of \<^verbatim>\<open>getValidDate\<close> promises to check, written from its words
  and not from the code: a string \<^verbatim>\<open>YYYY-MM-DD\<close> is a valid date when its month is 1 to 12
  and its day is a day of that month in that year of the Gregorian calendar.
\<close>

definition leap_year :: "nat \<Rightarrow> bool" where
  "leap_year y = ((y mod 4 = 0 \<and> 0 < y mod 100) \<or> y mod 400 = 0)"

definition days_in_month :: "nat \<Rightarrow> nat \<Rightarrow> nat" where
  "days_in_month y m =
     (if m = 2 then (if leap_year y then 29 else 28)
      else if m \<in> {4, 6, 9, 11} then 30
      else 31)"

definition valid_calendar_date :: "string \<Rightarrow> bool" where
  "valid_calendar_date s =
     (regex_test dateRegex s
      \<and> (let year = number_value (take 4 s);
              month = number_value (take 2 (drop 5 s));
              day = number_value (take 2 (drop 8 s))
          in IsMonth month \<and> 1 \<le> day \<and> day \<le> days_in_month year month))"

subsection \<open>\<^verbatim>\<open>index.ts\<close>: the MCP tools\<close>

text \<open>
  \<^verbatim>\<open>JSON.stringify\<close> of a string and of an object of string properties. Quotation mark
  and backslash are escaped, the control characters print as their short escapes or as
  \<^verbatim>\<open>\u00XX\<close>.
\<close>

definition hex_char :: "nat \<Rightarrow> char" where
  "hex_char n = ''0123456789abcdef'' ! (n mod 16)"

definition json_escape :: "char \<Rightarrow> string" where
  "json_escape c =
     (if c = CHR 0x22 then [CHR 0x5C, CHR 0x22]
      else if c = CHR 0x5C then [CHR 0x5C, CHR 0x5C]
      else if c = CHR 0x08 then [CHR 0x5C, CHR ''b'']
      else if c = CHR 0x09 then [CHR 0x5C, CHR ''t'']
      else if c = CHR 0x0A then [CHR 0x5C, CHR ''n'']
      else if c = CHR 0x0C then [CHR 0x5C, CHR ''f'']
      else if c = CHR 0x0D then [CHR 0x5C, CHR ''r'']
      else if (of_char c :: nat) < 32
        then [CHR 0x5C, CHR ''u'', CHR ''0'', CHR ''0'',
              hex_char (of_char c div 16), hex_char (of_char c mod 16)]
      else [c])"

definition JSON_quote :: "string \<Rightarrow> string" where
  "JSON_quote s = [CHR 0x22] @ concat (map json_escape s) @ [CHR 0x22]"

fun join :: "string \<Rightarrow> string list \<Rightarrow> string" where
  "join sep [] = []"
| "join sep [x] = x"
| "join sep (x # y # ys) = x @ sep @ join sep (y # ys)"

definition JSON_stringify_object :: "(string \<times> string) list \<Rightarrow> string" where
  "JSON_stringify_object fs =
     ''{'' @ join '','' (map (\<lambda>f. JSON_quote (fst f) @ '':'' @ JSON_quote (snd f)) fs) @ ''}''"

fun JSON_stringify :: "json \<Rightarrow> string"
  and stringify_properties :: "(string \<times> json) list \<Rightarrow> string list" where
  "JSON_stringify JNull = ''null''"
| "JSON_stringify (JString s) = JSON_quote s"
| "JSON_stringify (JOther s) = s"
| "JSON_stringify (JObj ps) = ''{'' @ join '','' (stringify_properties ps) @ ''}''"
| "stringify_properties [] = []"
| "stringify_properties (p # ps) =
     (JSON_quote (fst p) @ '':'' @ JSON_stringify (snd p)) # stringify_properties ps"

text \<open>
  A tool result is its \<^verbatim>\<open>content\<close> array. Each tool is given with the list of requests it
  sent, in order; \<open>this.props\<close> is \<open>None\<close> when absent.
\<close>

record content_item =
  content_type :: string
  content_text :: string

type_synonym tool_result = "content_item list"

definition text_result :: "string \<Rightarrow> tool_result" where
  "text_result t = [\<lparr>content_type = ''text'', content_text = t\<rparr>]"

definition error_result :: "string \<Rightarrow> tool_result" where
  "error_result msg = text_result (JSON_stringify_object [(''error'', msg)])"

definition String_of :: "error \<Rightarrow> string" where
  "String_of err =
     (case err of
        Error name msg \<Rightarrow> error_toString name msg
      | OAuthError k \<Rightarrow> error_toString ''OAuthError'' [])"

text \<open>The \<^verbatim>\<open>try\<close> block shared by the tools: send, check \<^verbatim>\<open>ok\<close>, parse, print.\<close>

definition call_api ::
  "(fetch_request \<Rightarrow> error + fetch_response) \<Rightarrow> fetch_request \<Rightarrow> tool_result \<times> fetch_request list" where
  "call_api fetch_fn rq =
     (case fetch_fn rq of
        Inl err \<Rightarrow> (error_result (String_of err), [rq])
      | Inr resp \<Rightarrow>
          if \<not> fr_ok resp
          then (error_result
                  (error_toString ''Error'' (''HTTP error! status: '' @ show_nat (fr_status resp))),
                [rq])
          else
            (case fr_json resp of
               Inl err \<Rightarrow> (error_result (String_of err), [rq])
             | Inr data \<Rightarrow> (text_result (JSON_stringify data), [rq])))"

definition not_authenticated :: "tool_result \<times> fetch_request list" where
  "not_authenticated =
     (error_result ''Not authenticated. Please complete OAuth flow first.'', [])"

definition get_reflect_graphs ::
  "(fetch_request \<Rightarrow> error + fetch_response) \<Rightarrow> Props option \<Rightarrow> tool_result \<times> fetch_request list" where
  "get_reflect_graphs fetch_fn this_props =
     (case this_props of
        None \<Rightarrow> not_authenticated
      | Some p \<Rightarrow>
          if \<not> truthy (accessToken p) then not_authenticated
          else call_api fetch_fn
                 \<lparr>fq_url = ''https://reflect.app/api/graphs'',
                  fq_method = ''GET'',
                  fq_headers = [(''Authorization'', ''Bearer '' @ accessToken p)],
                  fq_body = NoRequestBody\<rparr>)"

definition daily_notes_request :: "string \<Rightarrow> string \<Rightarrow> (string \<times> string) list \<Rightarrow> fetch_request" where
  "daily_notes_request token graph_id obj =
     \<lparr>fq_url = ''https://reflect.app/api/graphs/'' @ graph_id @ ''/daily-notes'',
      fq_method = ''PUT'',
      fq_headers = [(''Authorization'', ''Bearer '' @ token), (''Content-Type'', ''application/json'')],
      fq_body = Raw (JSON_stringify_object obj)\<rparr>"

text \<open>The first version of the tool takes \<^verbatim>\<open>content\<close> and \<^verbatim>\<open>graph_id\<close>.\<close>

definition append_to_reflect_daily_notes ::
  "(fetch_request \<Rightarrow> error + fetch_response) \<Rightarrow> Props option \<Rightarrow> string \<Rightarrow> string
     \<Rightarrow> tool_result \<times> fetch_request list" where
  "append_to_reflect_daily_notes fetch_fn this_props content graph_id =
     (case this_props of
        None \<Rightarrow> not_authenticated
      | Some p \<Rightarrow>
          if \<not> truthy (accessToken p) then not_authenticated
          else call_api fetch_fn
                 (daily_notes_request (accessToken p) graph_id
                    [(''text'', content), (''transform_type'', ''list-append'')]))"

text \<open>The version with \<^verbatim>\<open>getValidDate\<close> takes an optional \<^verbatim>\<open>date\<close> as well.\<close>

definition append_to_reflect_daily_notes_dated ::
  "(fetch_request \<Rightarrow> error + fetch_response) \<Rightarrow> js_date \<Rightarrow> Props option \<Rightarrow> string \<Rightarrow> string
     \<Rightarrow> string option \<Rightarrow> tool_result \<times> fetch_request list" where
  "append_to_reflect_daily_notes_dated fetch_fn now this_props content graph_id date =
     (case this_props of
        None \<Rightarrow> not_authenticated
      | Some p \<Rightarrow>
          if \<not> truthy (accessToken p) then not_authenticated
          else
            let validDate = getValidDate now date
            in call_api fetch_fn
                 (daily_notes_request (accessToken p) graph_id
                    [(''date'', validDate), (''text'', content),
                     (''transform_type'', ''list-append'')]))"

text \<open>
  The latest version adds optional \<^verbatim>\<open>tasks\<close>, makes \<^verbatim>\<open>content\<close> optional and refuses
  an empty text before any request is sent.
\<close>

definition append_to_reflect_daily_notes_tasks ::
  "(fetch_request \<Rightarrow> error + fetch_response) \<Rightarrow> js_date \<Rightarrow> Props option \<Rightarrow> string option
     \<Rightarrow> string list option \<Rightarrow> string \<Rightarrow> string option \<Rightarrow> tool_result \<times> fetch_request list" where
  "append_to_reflect_daily_notes_tasks fetch_fn now this_props content tasks graph_id date =
     (case this_props of
        None \<Rightarrow> not_authenticated
      | Some p \<Rightarrow>
          if \<not> truthy (accessToken p) then not_authenticated
          else
            let validDate = getValidDate now date;
                parts =
                  (case content of None \<Rightarrow> [] | Some c \<Rightarrow> if truthy c then [c] else [])
                  @ (case tasks of
                       None \<Rightarrow> []
                     | Some ts \<Rightarrow>
                         if 0 < length ts then [join [CHR 0x0A] (map (\<lambda>task. ''+ '' @ task) ts)]
                         else []);
                textToAppend = join [CHR 0x0A] parts
            in if \<not> truthy textToAppend
               then (error_result ''Either content or tasks must be provided.'', [])
               else call_api fetch_fn
                      (daily_notes_request (accessToken p) graph_id
                         [(''date'', validDate), (''text'', textToAppend),
                          (''transform_type'', ''list-append''),
                          (''list_name'', ''[[Claude-Notes]]'')]))"

subsection \<open>A concrete scenario\<close>

text \<open>
  Concrete collaborators, on which the routes can be run: a cipher for the binding cookie
  that prefixes the key, a cipher for the ledger that writes the key and the identifiers
  one after the other (each character after a \<open>c\<close>, each string closed by an \<open>e\<close>), and
  the end-to-end scenario of the specification: client \<open>demo\<close>, state token \<open>T1\<close>,
  code \<open>xyz\<close>.
\<close>

definition prefix_cipher :: "string cipher" where
  "prefix_cipher =
     \<lparr>seal = (\<lambda>p key. key @ '':'' @ p),
      unseal = (\<lambda>opaque key.
        if take (length key + 1) opaque = key @ '':''
        then Some (drop (length key + 1) opaque) else None)\<rparr>"

definition encode_ids :: "string list \<Rightarrow> string" where
  "encode_ids ids = concat (map (\<lambda>s. concat (map (\<lambda>c. [CHR ''c'', c]) s) @ ''e'') ids)"

fun decode_ids :: "string \<Rightarrow> string \<Rightarrow> string list option" where
  "decode_ids acc [] = (if acc = [] then Some [] else None)"
| "decode_ids acc [m] = (if m = CHR ''e'' then Some [acc] else None)"
| "decode_ids acc (m # c # rest) =
     (if m = CHR ''e'' then map_option ((#) acc) (decode_ids [] (c # rest))
      else if m = CHR ''c'' then decode_ids (acc @ [c]) rest
      else None)"

definition list_cipher :: "string list cipher" where
  "list_cipher =
     \<lparr>seal = (\<lambda>ids key. encode_ids (key # ids)),
      unseal = (\<lambda>opaque key.
        case decode_ids [] opaque of
          None \<Rightarrow> None
        | Some [] \<Rightarrow> None
        | Some (k # ids) \<Rightarrow> if k = key then Some ids else None)\<rparr>"

definition demo_request :: auth_request where
  "demo_request =
     \<lparr>responseType = ''code'', clientId = ''demo'',
      redirectUri = ''https://client.example/callback'', scope = [''read''], state = ''s0''\<rparr>"

definition demo_env :: env where
  "demo_env =
     \<lparr>COOKIE_ENCRYPTION_KEY = ''k1'', REFLECT_CLIENT_ID = ''reflect-id'',
      REFLECT_CLIENT_SECRET = ''reflect-secret''\<rparr>"

definition token_response :: fetch_response where
  "token_response =
     \<lparr>fr_ok = True, fr_status = 200, fr_text = [],
      fr_json = Inr (JObj [(''access_token'', JString ''at-1''),
                           (''access_token_id'', JString ''id-1''),
                           (''expires_in'', JOther ''3600'')])\<rparr>"

text \<open>
  The form's state for \<open>demo_request\<close>: the base64 text of
  \<^verbatim>\<open>{"oauthReqInfo":{"responseType":"code","clientId":"demo",\<close>
  \<^verbatim>\<open>"redirectUri":"https://client.example/callback","scope":["read"],"state":"s0"}}\<close>;
  \<open>null_state\<close> is the base64 text of \<^verbatim>\<open>null\<close>.
\<close>

definition demo_state :: string where
  "demo_state =
     ''eyJvYXV0aFJlcUluZm8iOnsicmVzcG9uc2VUeXBlIjoiY29kZSIsImNsaWVudElkIjoiZGVtbyIsInJlZGlyZWN0VXJp''
     @ ''IjoiaHR0cHM6Ly9jbGllbnQuZXhhbXBsZS9jYWxsYmFjayIsInNjb3BlIjpbInJlYWQiXSwic3RhdGUiOiJzMCJ9fQ==''"

definition null_state :: string where
  "null_state = ''bnVsbA==''"

definition demo_collab :: "(fetch_request \<Rightarrow> error + fetch_response) \<Rightarrow> collab" where
  "demo_collab fetch_fn =
     \<lparr>parseAuthRequest = (\<lambda>u q. Inr demo_request),
      lookupClient = (\<lambda>cid. Inr (Some cid)),
      completeAuthorization = (\<lambda>opts. Inr ''https://client.example/callback?code=done''),
      decodeState = (\<lambda>s. if s = demo_state then Decoded (Some demo_request)
                          else if s = null_state then DecodedNull else DecodeThrows),
      getUpstreamAuthorizeUrl = (\<lambda>ps. upstream_url ps @ ''?state='' @ up_state ps),
      callbackUrl = (\<lambda>u. ''https://mcp.example/oauth/callback''),
      fetch = fetch_fn,
      toResponse = (\<lambda>k. \<lparr>status = 400, headers = [], body = Text ''invalid_request''\<rparr>),
      ledger_cipher = list_cipher,
      binding_cipher = prefix_cipher\<rparr>"

definition callback_request :: "string \<Rightarrow> (string \<rightharpoonup> string) \<Rightarrow> request" where
  "callback_request bound q =
     \<lparr>url = ''https://mcp.example/oauth/callback'',
      cookies = [STATE_COOKIE \<mapsto> seal prefix_cipher bound ''k1''],
      query = q,
      formData = Inl (Error ''TypeError'' ''Unrecognized Content-Type header value.'')\<rparr>"

definition demo_store :: kv where
  "demo_store = [''T1'' \<mapsto> (demo_request, 1600)]"



definition empty_request :: request where
  "empty_request =
     \<lparr>url = ''https://mcp.example/authorize'', cookies = Map.empty, query = Map.empty,
      formData = Inr Map.empty\<rparr>"

definition valid_clock :: "js_date \<Rightarrow> bool" where
  "valid_clock d =
     (0 \<le> utc_year d \<and> utc_year d \<le> 9999 \<and> 1 \<le> utc_month d \<and> utc_month d \<le> 12
      \<and> 1 \<le> utc_day d \<and> utc_day d \<le> 31)"

definition response_view ::
  "response \<Rightarrow> nat \<times> (string \<times> string) list \<times> string option \<times> dialog_options option" where
  "response_view r =
     (status r, headers r,
      (case body r of Text t \<Rightarrow> Some t | _ \<Rightarrow> None),
      (case body r of ApprovalDialog rq opts \<Rightarrow> Some opts | _ \<Rightarrow> None))"

definition consent_request :: "cookies \<Rightarrow> request" where
  "consent_request jar =
     \<lparr>url = ''https://mcp.example/authorize'', cookies = jar, query = Map.empty,
      formData = Inr [CSRF_FIELD \<mapsto> ''tok-1'', ''state'' \<mapsto> demo_state]\<rparr>"

definition failed_exchange :: fetch_response where
  "failed_exchange =
     \<lparr>fr_ok = False, fr_status = 401, fr_text = ''invalid_client: secret rejected'',
      fr_json = Inl (Error ''SyntaxError'' ''Unexpected token'')\<rparr>"

definition demo_clock :: js_date where
  "demo_clock =
     \<lparr>utc_year = 2026, utc_month = 11, utc_day = 2, utc_hours = 3, utc_minutes = 4,
      utc_seconds = 5, utc_milliseconds = 6\<rparr>"

section \<open>Properties\<close>

subsection \<open>CSRF Guard\<close>

lemma accumulate_diff_True: "accumulate_diff True a b = True"
  by (induction True a b rule: accumulate_diff.induct) auto

lemma accumulate_diff_False: "length a = length b \<Longrightarrow> accumulate_diff False a b = (a \<noteq> b)"
proof (induction a arbitrary: b)
  case Nil
  then show ?case by simp
next
  case (Cons x xs)
  then obtain y ys where b: "b = y # ys"
    by (cases b) auto
  show ?case
  proof (cases "x = y")
    case True
    with Cons b show ?thesis by simp
  next
    case False
    with b show ?thesis by (simp add: accumulate_diff_True)
  qed
qed

lemma timingSafeEqual_iff: "timingSafeEqual a b = (a = b)"
  using accumulate_diff_False [of a b] by (auto simp: timingSafeEqual_def)

text \<open>
  C5. CSRF validation fails with CSRFMismatch when the CSRF cookie is absent, whatever
  token the form submits; it fails with CSRFMismatch when the submitted token is absent or
  differs from the cookie's value; and it succeeds exactly when both are present and equal.
\<close>

theorem validateCSRFToken_exact:
  "(cookies req CSRF_COOKIE = None \<longrightarrow> validateCSRFToken form req = Inl (OAuthError CSRFMismatch))
   \<and> (form CSRF_FIELD = None \<longrightarrow> validateCSRFToken form req = Inl (OAuthError CSRFMismatch))
   \<and> (\<forall>t c. form CSRF_FIELD = Some t \<and> cookies req CSRF_COOKIE = Some c \<and> t \<noteq> c
         \<longrightarrow> validateCSRFToken form req = Inl (OAuthError CSRFMismatch))
   \<and> ((validateCSRFToken form req = Inr ())
        = (\<exists>t. form CSRF_FIELD = Some t \<and> cookies req CSRF_COOKIE = Some t))
   \<and> (validateCSRFToken form req = Inr () \<or> validateCSRFToken form req = Inl (OAuthError CSRFMismatch))"
  by (auto simp: validateCSRFToken_def timingSafeEqual_iff split: option.splits)

theorem validateCSRFToken_exact_witness:
  "validateCSRFToken Map.empty empty_request = Inl (OAuthError CSRFMismatch)
   \<and> validateCSRFToken [CSRF_FIELD \<mapsto> ''tok-1''] empty_request = Inl (OAuthError CSRFMismatch)
   \<and> validateCSRFToken [CSRF_FIELD \<mapsto> ''tok-1'']
        (empty_request\<lparr>cookies := [CSRF_COOKIE \<mapsto> ''tok-2'']\<rparr>)
     = Inl (OAuthError CSRFMismatch)
   \<and> validateCSRFToken [CSRF_FIELD \<mapsto> ''tok-1'']
        (empty_request\<lparr>cookies := [CSRF_COOKIE \<mapsto> ''tok-1'']\<rparr>)
     = Inr ()"
  using validateCSRFToken_exact [of empty_request Map.empty]
    validateCSRFToken_exact [of empty_request "[CSRF_FIELD \<mapsto> ''tok-1'']"]
    validateCSRFToken_exact [of "empty_request\<lparr>cookies := [CSRF_COOKIE \<mapsto> ''tok-2'']\<rparr>"
      "[CSRF_FIELD \<mapsto> ''tok-1'']"]
    validateCSRFToken_exact [of "empty_request\<lparr>cookies := [CSRF_COOKIE \<mapsto> ''tok-1'']\<rparr>"
      "[CSRF_FIELD \<mapsto> ''tok-1'']"]
  by (simp add: empty_request_def)

subsection \<open>State Store\<close>

text \<open>
  C3. Creating a state entry for a pending request and consuming the returned token at
  once gives back that request unchanged; consuming the same token again, at any later
  time, fails with UnknownOrExpiredState.
\<close>

theorem create_then_consume:
  "\<exists>store2. consume now (fst (createOAuthState random now pending store))
                (snd (createOAuthState random now pending store))
              = Inr (pending, store2)
            \<and> (\<forall>later. consume later (fst (createOAuthState random now pending store)) store2
                         = Inl (OAuthError UnknownOrExpiredState))"
  by (simp add: createOAuthState_def consume_def kv_get_def STATE_TTL_def)

subsection \<open>The ciphers of the scenario\<close>


lemma decode_ids_string:
  "decode_ids acc (concat (map (\<lambda>c. [CHR ''c'', c]) s) @ CHR ''e'' # rest)
     = (if rest = [] then Some [acc @ s] else map_option ((#) (acc @ s)) (decode_ids [] rest))"
proof (induction s arbitrary: acc)
  case Nil
  then show ?case by (cases rest) auto
next
  case (Cons c s)
  then show ?case by simp
qed

lemma decode_ids_nonempty: "decode_ids [] (encode_ids (x # xs)) = Some (x # xs)"
proof (induction xs arbitrary: x)
  case Nil
  then show ?case
    using decode_ids_string [of "[]" x "[]"] by (simp add: encode_ids_def)
next
  case (Cons y ys)
  have "encode_ids (x # y # ys)
          = concat (map (\<lambda>c. [CHR ''c'', c]) x) @ CHR ''e'' # encode_ids (y # ys)"
    by (simp add: encode_ids_def)
  moreover have "encode_ids (y # ys) \<noteq> []"
    by (simp add: encode_ids_def)
  ultimately show ?case
    using decode_ids_string [of "[]" x "encode_ids (y # ys)"] Cons.IH [of y] by simp
qed

lemma list_cipher_roundtrip: "cipher_roundtrip list_cipher"
  by (simp add: cipher_roundtrip_def list_cipher_def decode_ids_nonempty)

subsection \<open>Approved-Client Ledger\<close>

lemma getApprovedClients_sealed:
  "cipher_roundtrip ci \<Longrightarrow> cookies req APPROVED_COOKIE = Some (seal ci ids key)
     \<Longrightarrow> getApprovedClients ci req key = ids"
  by (simp add: getApprovedClients_def cipher_open_def cipher_roundtrip_def)

lemma isClientApproved_members:
  "isClientApproved ci req cid key = (cid \<in> set (getApprovedClients ci req key))"
  by (simp add: isClientApproved_def getApprovedClients_def split: option.splits sum.splits)

lemma getApprovedClients_after_add:
  "cipher_roundtrip ci \<Longrightarrow>
   getApprovedClients ci
       (req\<lparr>cookies := browser_store (cookies req) (addApprovedClient ci req a key)\<rparr>) key
     = List.insert a (getApprovedClients ci req key)"
  by (rule getApprovedClients_sealed) (simp_all add: browser_store_def addApprovedClient_def)

text \<open>
  C7. With a cipher that opens what it sealed: after the browser stores the ledger cookie
  of adding client \<open>a\<close> and then the one of adding client \<open>b\<close>, both are approved, and so
  is every client that was approved before. A ledger cookie that does not open under the
  key, and a missing one, make \<open>isClientApproved\<close> answer false for every client.
\<close>

theorem ledger_keeps_clients:
  assumes "cipher_roundtrip ci"
  shows "(let req1 = req\<lparr>cookies := browser_store (cookies req) (addApprovedClient ci req a key)\<rparr>;
              req2 = req1\<lparr>cookies := browser_store (cookies req1) (addApprovedClient ci req1 b key)\<rparr>
          in isClientApproved ci req2 a key \<and> isClientApproved ci req2 b key
             \<and> (\<forall>cid. isClientApproved ci req cid key \<longrightarrow> isClientApproved ci req2 cid key))
         \<and> (\<forall>r v cid. cookies r APPROVED_COOKIE = Some v \<and> unseal ci v key = None
               \<longrightarrow> \<not> isClientApproved ci r cid key)
         \<and> (\<forall>r cid. cookies r APPROVED_COOKIE = None \<longrightarrow> \<not> isClientApproved ci r cid key)"
proof -
  have corrupt: "\<forall>r v cid. cookies r APPROVED_COOKIE = Some v \<and> unseal ci v key = None
               \<longrightarrow> \<not> isClientApproved ci r cid key"
    by (simp add: isClientApproved_def cipher_open_def)
  have missing: "\<forall>r cid. cookies r APPROVED_COOKIE = None \<longrightarrow> \<not> isClientApproved ci r cid key"
    by (simp add: isClientApproved_def)
  show ?thesis
    using corrupt missing
    by (simp add: Let_def isClientApproved_members getApprovedClients_after_add [OF assms])
qed

theorem ledger_keeps_clients_witness:
  "cipher_roundtrip list_cipher
   \<and> (let req1 = empty_request\<lparr>cookies := browser_store (cookies empty_request)
                      (addApprovedClient list_cipher empty_request ''abc'' ''k1'')\<rparr>;
           req2 = req1\<lparr>cookies := browser_store (cookies req1)
                      (addApprovedClient list_cipher req1 ''xyz'' ''k1'')\<rparr>
       in isClientApproved list_cipher req2 ''abc'' ''k1''
          \<and> isClientApproved list_cipher req2 ''xyz'' ''k1'')
   \<and> cookies (empty_request\<lparr>cookies := [APPROVED_COOKIE \<mapsto> ''garbage'']\<rparr>) APPROVED_COOKIE
       = Some ''garbage''
   \<and> unseal list_cipher ''garbage'' ''k1'' = None
   \<and> \<not> isClientApproved list_cipher
         (empty_request\<lparr>cookies := [APPROVED_COOKIE \<mapsto> ''garbage'']\<rparr>) ''abc'' ''k1''"
proof -
  have u: "unseal list_cipher ''garbage'' ''k1'' = None"
    by (simp add: list_cipher_def)
  have c: "cookies (empty_request\<lparr>cookies := [APPROVED_COOKIE \<mapsto> ''garbage'']\<rparr>) APPROVED_COOKIE
             = Some ''garbage''"
    by simp
  show ?thesis
    using ledger_keeps_clients [OF list_cipher_roundtrip, of empty_request "''abc''" "''k1''" "''xyz''"]
      list_cipher_roundtrip u c
    by (simp add: Let_def)
qed

subsection \<open>Callback Validator\<close>



subsection \<open>The callback route and the binding cookie\<close>

text \<open>
  C1 at a failing input: the callback arrives with a binding cookie for the live token
  \<open>T1\<close>, with that token as its \<^verbatim>\<open>state\<close> and without a \<^verbatim>\<open>code\<close>. Validation succeeds and
  consumes \<open>T1\<close>; the route answers 400 \<^verbatim>\<open>Missing code\<close> with the content type as its only
  header, so no \<^verbatim>\<open>Set-Cookie\<close> clears the binding cookie. The same callback with a code
  runs to the final redirect, which does carry the clearing header.
\<close>

theorem callback_missing_code_keeps_cookie:
  "oauth_callback (demo_collab (\<lambda>rq. Inr token_response)) demo_env 1000
      (callback_request ''T1'' [''state'' \<mapsto> ''T1'']) demo_store
     = (Inr \<lparr>status = 400, headers = [(''content-type'', ''text/plain; charset=UTF-8'')],
              body = Text ''Missing code''\<rparr>,
        demo_store(''T1'' := None))
   \<and> oauth_callback (demo_collab (\<lambda>rq. Inr token_response)) demo_env 1000
      (callback_request ''T1'' [''state'' \<mapsto> ''T1'', ''code'' \<mapsto> ''xyz'']) demo_store
     = (Inr \<lparr>status = 302,
              headers = [(''location'', ''https://client.example/callback?code=done''),
                         (''set-cookie'', cookieHeader unbind)],
              body = NoBody\<rparr>,
        demo_store(''T1'' := None))
   \<and> sc_name unbind = STATE_COOKIE \<and> sc_max_age unbind = 0"
proof -
  have validated:
    "validateOAuthState prefix_cipher ''k1'' 1000 (callback_request ''T1'' q) demo_store
       = (Inr \<lparr>oauthReqInfo = demo_request, clearCookie = cookieHeader unbind\<rparr>,
          demo_store(''T1'' := None))" if "q ''state'' = Some ''T1''" for q
    using that
    by (simp add: validateOAuthState_def readBoundToken_def cipher_open_def callback_request_def
        prefix_cipher_def consume_def kv_get_def demo_store_def)
  have parts:
    "binding_cipher (demo_collab f) = prefix_cipher"
    "COOKIE_ENCRYPTION_KEY demo_env = ''k1''"
    "query (callback_request ''T1'' q) = q"
    "fetch (demo_collab f) = f"
    "completeAuthorization (demo_collab f) = (\<lambda>opts. Inr ''https://client.example/callback?code=done'')"
    for f q
    by (simp_all add: demo_collab_def demo_env_def callback_request_def)
  have header: "truthy (cookieHeader unbind)"
    by (simp add: truthy_def cookieHeader_def unbind_def)
  have missing: "oauth_callback (demo_collab (\<lambda>rq. Inr token_response)) demo_env 1000
      (callback_request ''T1'' [''state'' \<mapsto> ''T1'']) demo_store
     = (Inr \<lparr>status = 400, headers = [(''content-type'', ''text/plain; charset=UTF-8'')],
              body = Text ''Missing code''\<rparr>,
        demo_store(''T1'' := None))"
    by (simp add: oauth_callback_def validated parts callback_after_def truthy_def
        demo_request_def c_text_def)
  have redirect: "oauth_callback (demo_collab (\<lambda>rq. Inr token_response)) demo_env 1000
      (callback_request ''T1'' [''state'' \<mapsto> ''T1'', ''code'' \<mapsto> ''xyz'']) demo_store
     = (Inr \<lparr>status = 302,
              headers = [(''location'', ''https://client.example/callback?code=done''),
                         (''set-cookie'', cookieHeader unbind)],
              body = NoBody\<rparr>,
        demo_store(''T1'' := None))"
    using header
    by (simp add: oauth_callback_def validated parts callback_after_def truthy_def
        demo_request_def exchange_def token_response_def complete_def Headers_set_def)
  from missing redirect show ?thesis
    by (simp add: unbind_def)
qed

subsection \<open>The authorize routes and the approved-client check\<close>

lemma cookie_names_differ:
  "CSRF_COOKIE \<noteq> APPROVED_COOKIE" "STATE_COOKIE \<noteq> APPROVED_COOKIE"
  by (simp_all add: CSRF_COOKIE_def APPROVED_COOKIE_def STATE_COOKIE_def)

lemma validateCSRFToken_ledger:
  "validateCSRFToken form (req\<lparr>cookies := (cookies req)(APPROVED_COOKIE := v)\<rparr>)
     = validateCSRFToken form req"
  by (simp add: validateCSRFToken_def cookie_names_differ)

lemma fromEntries_two_cookies:
  "Object_fromEntries (Headers_append (Headers_append [] ''set-cookie'' a) ''set-cookie'' b)
     = [(''set-cookie'', b)]"
  by (simp add: Object_fromEntries_def Headers_append_def)

lemma authorize_post_try_ledger:
  "authorize_post_try co e random now (req\<lparr>cookies := (cookies req)(APPROVED_COOKIE := v)\<rparr>) store
     = authorize_post_try co e random now req store"
  by (simp add: authorize_post_try_def validateCSRFToken_ledger fromEntries_two_cookies
      redirectToReflect_def Let_def split: sum.splits option.splits decoded.splits)

lemma authorize_post_ledger:
  "authorize_post co e random now (req\<lparr>cookies := (cookies req)(APPROVED_COOKIE := v)\<rparr>) store
     = authorize_post co e random now req store"
  by (simp add: authorize_post_def authorize_post_try_ledger)

lemma authorize_get_ledger:
  "map_sum id response_view
      (authorize_get co e random (req\<lparr>cookies := (cookies req)(APPROVED_COOKIE := v)\<rparr>))
     = map_sum id response_view (authorize_get co e random req)"
  by (simp add: authorize_get_def Let_def response_view_def renderApprovalDialog_def
      split: sum.splits)

lemma authorize_post_redirect:
  assumes "formData req = Inr form" "validateCSRFToken form req = Inr ()"
    "form ''state'' = Some encoded" "encoded \<noteq> []"
    "decodeState co encoded = Decoded (Some info)" "clientId info \<noteq> []"
  shows "authorize_post co e random now req store
         = (\<lparr>status = 302,
             headers =
               [(''set-cookie'',
                 cookieHeader (bindStateToSession (binding_cipher co) (COOKIE_ENCRYPTION_KEY e) random)),
                (''location'',
                 getUpstreamAuthorizeUrl co
                   \<lparr>client_id = REFLECT_CLIENT_ID e, redirect_uri = callbackUrl co (url req),
                    up_scope = ''read:graph,write:graph'', upstream_url = ''https://reflect.app/oauth'',
                    response_type = ''code'', up_state = random\<rparr>)],
             body = NoBody\<rparr>,
            store(random \<mapsto> (info, now + STATE_TTL)))"
  using assms
  by (simp add: authorize_post_def authorize_post_try_def truthy_def fromEntries_two_cookies
      redirectToReflect_def createOAuthState_def Let_def)

lemma authorize_get_dialog:
  assumes "parseAuthRequest co (url req) (query req) = Inr info" "clientId info \<noteq> []"
    "lookupClient co (clientId info) = Inr cl"
  shows "authorize_get co e random req
         = Inr \<lparr>status = 200,
                headers = [(''content-type'', ''text/html; charset=utf-8''),
                           (''set-cookie'',
                            cookieHeader \<lparr>sc_name = CSRF_COOKIE, sc_value = random, sc_max_age = 600\<rparr>)],
                body = ApprovalDialog req
                  \<lparr>client = cl, csrfToken = random,
                   server_description = ''This MCP Server is For Reflect OAuth.'',
                   server_name = ''Reflect MCP Server'',
                   setCookie = cookieHeader \<lparr>sc_name = CSRF_COOKIE, sc_value = random, sc_max_age = 600\<rparr>,
                   dialog_state = info\<rparr>\<rparr>"
  using assms
  by (simp add: authorize_get_def truthy_def Let_def renderApprovalDialog_def
      generateCSRFProtection_def)


text \<open>
  C4. Two runs of \<^verbatim>\<open>GET /authorize\<close> whose requests differ only in the approved-clients
  cookie end alike: the same error, or responses with the same status, the same headers
  and a dialog rendered from the same options (CSRF token, CSRF cookie, pending request).
  Two such runs of \<^verbatim>\<open>POST /authorize\<close> give the same response and the same store. On
  their successful paths, whatever the approval status, the first sets the CSRF cookie
  and the second creates the state entry and sets the session-binding cookie.
\<close>

theorem approval_never_gates_issuance:
  "map_sum id response_view
      (authorize_get co e random (req\<lparr>cookies := (cookies req)(APPROVED_COOKIE := v)\<rparr>))
     = map_sum id response_view (authorize_get co e random req)
   \<and> authorize_post co e random now (req\<lparr>cookies := (cookies req)(APPROVED_COOKIE := v)\<rparr>) store
     = authorize_post co e random now req store
   \<and> (parseAuthRequest co (url req) (query req) = Inr info \<and> clientId info \<noteq> []
        \<and> lookupClient co (clientId info) = Inr cl
      \<longrightarrow> authorize_get co e random req
         = Inr \<lparr>status = 200,
                headers = [(''content-type'', ''text/html; charset=utf-8''),
                           (''set-cookie'',
                            cookieHeader \<lparr>sc_name = CSRF_COOKIE, sc_value = random, sc_max_age = 600\<rparr>)],
                body = ApprovalDialog req
                  \<lparr>client = cl, csrfToken = random,
                   server_description = ''This MCP Server is For Reflect OAuth.'',
                   server_name = ''Reflect MCP Server'',
                   setCookie = cookieHeader \<lparr>sc_name = CSRF_COOKIE, sc_value = random, sc_max_age = 600\<rparr>,
                   dialog_state = info\<rparr>\<rparr>)
   \<and> (formData req = Inr form \<and> validateCSRFToken form req = Inr ()
        \<and> form ''state'' = Some encoded \<and> encoded \<noteq> []
        \<and> decodeState co encoded = Decoded (Some info) \<and> clientId info \<noteq> []
      \<longrightarrow> authorize_post co e random now req store
         = (\<lparr>status = 302,
             headers =
               [(''set-cookie'',
                 cookieHeader (bindStateToSession (binding_cipher co) (COOKIE_ENCRYPTION_KEY e) random)),
                (''location'',
                 getUpstreamAuthorizeUrl co
                   \<lparr>client_id = REFLECT_CLIENT_ID e, redirect_uri = callbackUrl co (url req),
                    up_scope = ''read:graph,write:graph'', upstream_url = ''https://reflect.app/oauth'',
                    response_type = ''code'', up_state = random\<rparr>)],
             body = NoBody\<rparr>,
            store(random \<mapsto> (info, now + STATE_TTL))))"
  using authorize_get_ledger [of co e random req v] authorize_post_ledger [of co e random now req v store]
    authorize_get_dialog [of co req info cl e random]
    authorize_post_redirect [of req form encoded co info e random now store]
  by blast

lemma demo_approved:
  "isClientApproved list_cipher
     (consent_request [CSRF_COOKIE \<mapsto> ''tok-1'', APPROVED_COOKIE \<mapsto> seal list_cipher [''demo''] ''k1''])
     ''demo'' ''k1''"
  using list_cipher_roundtrip
  by (simp add: isClientApproved_def consent_request_def cipher_open_def cipher_roundtrip_def)

theorem approval_never_gates_issuance_witness:
  "\<not> isClientApproved list_cipher (consent_request [CSRF_COOKIE \<mapsto> ''tok-1'']) ''demo'' ''k1''
   \<and> isClientApproved list_cipher
        (consent_request [CSRF_COOKIE \<mapsto> ''tok-1'', APPROVED_COOKIE \<mapsto> seal list_cipher [''demo''] ''k1''])
        ''demo'' ''k1''
   \<and> authorize_post (demo_collab (\<lambda>rq. Inr token_response)) demo_env ''T1'' 1000
        (consent_request [CSRF_COOKIE \<mapsto> ''tok-1'', APPROVED_COOKIE \<mapsto> seal list_cipher [''demo''] ''k1''])
        Map.empty
      = authorize_post (demo_collab (\<lambda>rq. Inr token_response)) demo_env ''T1'' 1000
          (consent_request [CSRF_COOKIE \<mapsto> ''tok-1'']) Map.empty
   \<and> authorize_post (demo_collab (\<lambda>rq. Inr token_response)) demo_env ''T1'' 1000
        (consent_request [CSRF_COOKIE \<mapsto> ''tok-1'']) Map.empty
      = (\<lparr>status = 302,
          headers =
            [(''set-cookie'',
              cookieHeader (bindStateToSession prefix_cipher ''k1'' ''T1'')),
             (''location'', ''https://reflect.app/oauth?state=T1'')],
          body = NoBody\<rparr>,
         [''T1'' \<mapsto> (demo_request, 1600)])"
proof -
  let ?req = "consent_request [CSRF_COOKIE \<mapsto> ''tok-1'']"
  let ?co = "demo_collab (\<lambda>rq. Inr token_response)"
  have r: "?req\<lparr>cookies := (cookies ?req)(APPROVED_COOKIE := Some (seal list_cipher [''demo''] ''k1''))\<rparr>
           = consent_request [CSRF_COOKIE \<mapsto> ''tok-1'', APPROVED_COOKIE \<mapsto> seal list_cipher [''demo''] ''k1'']"
    by (simp add: consent_request_def)
  have h1: "formData ?req = Inr [CSRF_FIELD \<mapsto> ''tok-1'', ''state'' \<mapsto> demo_state]"
    by (simp add: consent_request_def)
  have h2: "validateCSRFToken [CSRF_FIELD \<mapsto> ''tok-1'', ''state'' \<mapsto> demo_state] ?req = Inr ()"
    by (simp add: validateCSRFToken_def consent_request_def timingSafeEqual_iff CSRF_FIELD_def)
  have h3: "[CSRF_FIELD \<mapsto> ''tok-1'', ''state'' \<mapsto> demo_state] ''state'' = Some demo_state"
    by simp
  have h4: "decodeState ?co demo_state = Decoded (Some demo_request)"
    by (simp add: demo_collab_def)
  have h5: "clientId demo_request \<noteq> []"
    by (simp add: demo_request_def)
  have n: "\<not> isClientApproved list_cipher ?req ''demo'' ''k1''"
    by (simp add: isClientApproved_def consent_request_def CSRF_COOKIE_def APPROVED_COOKIE_def)
  show ?thesis
    using approval_never_gates_issuance [of ?co demo_env "''T1''" ?req
        "Some (seal list_cipher [''demo''] ''k1'')" 1000 Map.empty demo_request "Some ''demo''"
        "[CSRF_FIELD \<mapsto> ''tok-1'', ''state'' \<mapsto> demo_state]" "demo_state"]
      h1 h2 h3 h4 h5 n demo_approved
    by (simp add: r demo_collab_def demo_env_def consent_request_def STATE_TTL_def demo_state_def)
qed

subsection \<open>Error responses of the routes\<close>

text \<open>
  C8, as stated, fails: when the token endpoint answers 401 with a body, the callback
  answers 500 and its text repeats the upstream status and body, so that another upstream
  body gives the client another response.
\<close>

theorem token_exchange_failure_echoes_upstream:
  "oauth_callback (demo_collab (\<lambda>rq. Inr failed_exchange)) demo_env 1000
      (callback_request ''T1'' [''code'' \<mapsto> ''xyz'', ''state'' \<mapsto> ''T1'']) demo_store
     = (Inr \<lparr>status = 500, headers = [(''content-type'', ''text/plain; charset=UTF-8'')],
              body = Text ''Failed to fetch access token: 401 invalid_client: secret rejected''\<rparr>,
        demo_store(''T1'' := None))
   \<and> fr_text failed_exchange = ''invalid_client: secret rejected''
   \<and> oauth_callback (demo_collab (\<lambda>rq. Inr (failed_exchange\<lparr>fr_text := ''rate limited''\<rparr>)))
        demo_env 1000 (callback_request ''T1'' [''code'' \<mapsto> ''xyz'', ''state'' \<mapsto> ''T1'']) demo_store
     \<noteq> oauth_callback (demo_collab (\<lambda>rq. Inr failed_exchange)) demo_env 1000
         (callback_request ''T1'' [''code'' \<mapsto> ''xyz'', ''state'' \<mapsto> ''T1'']) demo_store"
  by (simp add: oauth_callback_def validateOAuthState_def readBoundToken_def cipher_open_def
      callback_request_def demo_collab_def prefix_cipher_def demo_env_def consume_def kv_get_def
      demo_store_def callback_after_def truthy_def demo_request_def c_text_def STATE_COOKIE_def
      exchange_def exchange_request_def failed_exchange_def show_nat.simps digit_char_def)

lemma validateCSRFToken_error:
  "validateCSRFToken form req = Inl err \<Longrightarrow> err = OAuthError CSRFMismatch"
  by (auto simp: validateCSRFToken_def split: option.splits if_splits)

lemma post_try_errors:
  assumes "authorize_post_try co e random now req store = (Inl (Error name msg), store')"
  shows "store' = store
         \<and> (formData req = Inl (Error name msg)
            \<or> (\<exists>form encoded. formData req = Inr form \<and> validateCSRFToken form req = Inr ()
                 \<and> form ''state'' = Some encoded \<and> encoded \<noteq> []
                 \<and> decodeState co encoded = DecodedNull
                 \<and> null_property_error ''oauthReqInfo'' = Error name msg))"
proof (cases "formData req")
  case (Inl err)
  with assms show ?thesis by (simp add: authorize_post_try_def)
next
  case (Inr form)
  show ?thesis
  proof (cases "validateCSRFToken form req")
    case (Inl err)
    with Inr assms validateCSRFToken_error [OF Inl] show ?thesis
      by (simp add: authorize_post_try_def)
  next
    case ok: (Inr u)
    with Inr assms show ?thesis
      by (auto simp: authorize_post_try_def truthy_def Let_def
          split: option.splits if_splits decoded.splits)
  qed
qed

text \<open>
  C8, amended. An error that is not an OAuthError and is thrown by state validation in
  the callback gives the fixed 500 response \<^verbatim>\<open>Internal server error\<close>. A token exchange
  that the upstream refuses gives a 500 response whose text carries the upstream status
  and body. Every error that is not an OAuthError and is thrown in the \<^verbatim>\<open>try\<close> block of
  \<^verbatim>\<open>POST /authorize\<close> gives a 500 response whose text is \<^verbatim>\<open>Internal server error: \<close>
  followed by the error's message, and leaves the store as it was; such an error comes
  from a rejected \<^verbatim>\<open>formData()\<close> or from a state that decodes to \<^verbatim>\<open>null\<close>, and both are
  answered so. Faults of the caller give 400 responses: a pending request without client
  identifier, a missing code, a missing state field, state data that does not decode,
  state data without a usable pending request. An error thrown by the call of the token
  endpoint itself is not caught by the callback: the route throws it on to the framework.
\<close>

theorem error_responses:
  "callback_after co e req (Inl (Error name msg)) = Inr (c_text ''Internal server error'' 500)
   \<and> (fetch co (exchange_request co e req code) = Inr resp \<and> \<not> fr_ok resp
      \<longrightarrow> exchange co e req result code
          = Inr (c_text (''Failed to fetch access token: '' @ show_nat (fr_status resp) @ '' ''
                           @ fr_text resp) 500))
   \<and> (authorize_post_try co e random now req store = (Inl (Error name msg), store')
      \<longrightarrow> authorize_post co e random now req store
            = (c_text (''Internal server error: '' @ msg) 500, store)
          \<and> store' = store
          \<and> (formData req = Inl (Error name msg)
             \<or> (\<exists>form encoded. formData req = Inr form \<and> validateCSRFToken form req = Inr ()
                  \<and> form ''state'' = Some encoded \<and> encoded \<noteq> []
                  \<and> decodeState co encoded = DecodedNull
                  \<and> null_property_error ''oauthReqInfo'' = Error name msg)))
   \<and> (formData req = Inl (Error name msg)
      \<longrightarrow> authorize_post co e random now req store
          = (c_text (''Internal server error: '' @ msg) 500, store))
   \<and> (formData req = Inr form \<and> validateCSRFToken form req = Inr ()
        \<and> form ''state'' = Some encoded \<and> encoded \<noteq> [] \<and> decodeState co encoded = DecodedNull
      \<longrightarrow> authorize_post co e random now req store
          = (c_text (''Internal server error: Cannot read properties of null (reading ''
                       @ [CHR 0x27] @ ''oauthReqInfo'' @ [CHR 0x27] @ '')'') 500, store))
   \<and> (clientId (oauthReqInfo result) = []
      \<longrightarrow> callback_after co e req (Inr result) = Inr (c_text ''Invalid OAuth request data'' 400))
   \<and> (clientId (oauthReqInfo result) \<noteq> [] \<and> (query req ''code'' = None \<or> query req ''code'' = Some [])
      \<longrightarrow> callback_after co e req (Inr result) = Inr (c_text ''Missing code'' 400))
   \<and> (formData req = Inr form \<and> validateCSRFToken form req = Inr ()
        \<and> (form ''state'' = None \<or> form ''state'' = Some [])
      \<longrightarrow> authorize_post co e random now req store = (c_text ''Missing state in form data'' 400, store))
   \<and> (formData req = Inr form \<and> validateCSRFToken form req = Inr ()
        \<and> form ''state'' = Some encoded \<and> encoded \<noteq> [] \<and> decodeState co encoded = DecodeThrows
      \<longrightarrow> authorize_post co e random now req store = (c_text ''Invalid state data'' 400, store))
   \<and> (formData req = Inr form \<and> validateCSRFToken form req = Inr ()
        \<and> form ''state'' = Some encoded \<and> encoded \<noteq> []
        \<and> (decodeState co encoded = Decoded None
            \<or> (\<exists>info. decodeState co encoded = Decoded (Some info) \<and> clientId info = []))
      \<longrightarrow> authorize_post co e random now req store = (c_text ''Invalid request'' 400, store))
   \<and> (fetch co (exchange_request co e req code) = Inl err
      \<longrightarrow> exchange co e req result code = Inl err)"
proof -
  have caught: "authorize_post co e random now req store
            = (c_text (''Internal server error: '' @ msg) 500, store')"
    if "authorize_post_try co e random now req store = (Inl (Error name msg), store')"
    using that by (simp add: authorize_post_def)
  have general: "authorize_post co e random now req store
            = (c_text (''Internal server error: '' @ msg) 500, store)
          \<and> store' = store
          \<and> (formData req = Inl (Error name msg)
             \<or> (\<exists>form encoded. formData req = Inr form \<and> validateCSRFToken form req = Inr ()
                  \<and> form ''state'' = Some encoded \<and> encoded \<noteq> []
                  \<and> decodeState co encoded = DecodedNull
                  \<and> null_property_error ''oauthReqInfo'' = Error name msg))"
    if "authorize_post_try co e random now req store = (Inl (Error name msg), store')"
    using caught [OF that] post_try_errors [OF that] by simp
  have rest:
    "callback_after co e req (Inl (Error name msg)) = Inr (c_text ''Internal server error'' 500)"
    "fetch co (exchange_request co e req code) = Inr resp \<and> \<not> fr_ok resp
      \<longrightarrow> exchange co e req result code
          = Inr (c_text (''Failed to fetch access token: '' @ show_nat (fr_status resp) @ '' ''
                           @ fr_text resp) 500)"
    "formData req = Inl (Error name msg)
      \<longrightarrow> authorize_post co e random now req store
          = (c_text (''Internal server error: '' @ msg) 500, store)"
    "formData req = Inr form \<and> validateCSRFToken form req = Inr ()
        \<and> form ''state'' = Some encoded \<and> encoded \<noteq> [] \<and> decodeState co encoded = DecodedNull
      \<longrightarrow> authorize_post co e random now req store
          = (c_text (''Internal server error: Cannot read properties of null (reading ''
                       @ [CHR 0x27] @ ''oauthReqInfo'' @ [CHR 0x27] @ '')'') 500, store)"
    "clientId (oauthReqInfo result) = []
      \<longrightarrow> callback_after co e req (Inr result) = Inr (c_text ''Invalid OAuth request data'' 400)"
    "clientId (oauthReqInfo result) \<noteq> [] \<and> (query req ''code'' = None \<or> query req ''code'' = Some [])
      \<longrightarrow> callback_after co e req (Inr result) = Inr (c_text ''Missing code'' 400)"
    "formData req = Inr form \<and> validateCSRFToken form req = Inr ()
        \<and> (form ''state'' = None \<or> form ''state'' = Some [])
      \<longrightarrow> authorize_post co e random now req store = (c_text ''Missing state in form data'' 400, store)"
    "formData req = Inr form \<and> validateCSRFToken form req = Inr ()
        \<and> form ''state'' = Some encoded \<and> encoded \<noteq> [] \<and> decodeState co encoded = DecodeThrows
      \<longrightarrow> authorize_post co e random now req store = (c_text ''Invalid state data'' 400, store)"
    "formData req = Inr form \<and> validateCSRFToken form req = Inr ()
        \<and> form ''state'' = Some encoded \<and> encoded \<noteq> []
        \<and> (decodeState co encoded = Decoded None
            \<or> (\<exists>info. decodeState co encoded = Decoded (Some info) \<and> clientId info = []))
      \<longrightarrow> authorize_post co e random now req store = (c_text ''Invalid request'' 400, store)"
    "fetch co (exchange_request co e req code) = Inl err
      \<longrightarrow> exchange co e req result code = Inl err"
    by (auto simp: callback_after_def exchange_def authorize_post_def authorize_post_try_def
        truthy_def c_text_def null_property_error_def)
  from general rest show ?thesis by blast
qed


theorem error_responses_witness:
  "fetch (demo_collab (\<lambda>rq. Inr failed_exchange))
       (exchange_request (demo_collab (\<lambda>rq. Inr failed_exchange)) demo_env
          (callback_request ''T1'' [''code'' \<mapsto> ''xyz'']) ''xyz'') = Inr failed_exchange
   \<and> \<not> fr_ok failed_exchange
   \<and> exchange (demo_collab (\<lambda>rq. Inr failed_exchange)) demo_env
        (callback_request ''T1'' [''code'' \<mapsto> ''xyz''])
        \<lparr>oauthReqInfo = demo_request, clearCookie = cookieHeader unbind\<rparr> ''xyz''
      = Inr (c_text ''Failed to fetch access token: 401 invalid_client: secret rejected'' 500)
   \<and> formData (callback_request ''T1'' Map.empty)
      = Inl (Error ''TypeError'' ''Unrecognized Content-Type header value.'')
   \<and> authorize_post (demo_collab (\<lambda>rq. Inr failed_exchange)) demo_env ''T9'' 1000
        (callback_request ''T1'' Map.empty) demo_store
      = (c_text ''Internal server error: Unrecognized Content-Type header value.'' 500, demo_store)
   \<and> decodeState (demo_collab (\<lambda>rq. Inr failed_exchange)) null_state = DecodedNull
   \<and> authorize_post_try (demo_collab (\<lambda>rq. Inr failed_exchange)) demo_env ''T9'' 1000
        ((consent_request [CSRF_COOKIE \<mapsto> ''tok-1''])
           \<lparr>formData := Inr [CSRF_FIELD \<mapsto> ''tok-1'', ''state'' \<mapsto> null_state]\<rparr>) demo_store
      = (Inl (Error ''TypeError'' (''Cannot read properties of null (reading ''
                   @ [CHR 0x27] @ ''oauthReqInfo'' @ [CHR 0x27] @ '')'')), demo_store)
   \<and> authorize_post (demo_collab (\<lambda>rq. Inr failed_exchange)) demo_env ''T9'' 1000
        ((consent_request [CSRF_COOKIE \<mapsto> ''tok-1''])
           \<lparr>formData := Inr [CSRF_FIELD \<mapsto> ''tok-1'', ''state'' \<mapsto> null_state]\<rparr>) demo_store
      = (c_text (''Internal server error: Cannot read properties of null (reading ''
                   @ [CHR 0x27] @ ''oauthReqInfo'' @ [CHR 0x27] @ '')'') 500, demo_store)
   \<and> authorize_post (demo_collab (\<lambda>rq. Inr failed_exchange)) demo_env ''T9'' 1000
        ((consent_request [CSRF_COOKIE \<mapsto> ''tok-1''])
           \<lparr>formData := Inr [CSRF_FIELD \<mapsto> ''tok-1'']\<rparr>) demo_store
      = (c_text ''Missing state in form data'' 400, demo_store)
   \<and> decodeState (demo_collab (\<lambda>rq. Inr failed_exchange)) ''%%%'' = DecodeThrows
   \<and> authorize_post (demo_collab (\<lambda>rq. Inr failed_exchange)) demo_env ''T9'' 1000
        ((consent_request [CSRF_COOKIE \<mapsto> ''tok-1''])
           \<lparr>formData := Inr [CSRF_FIELD \<mapsto> ''tok-1'', ''state'' \<mapsto> ''%%%'']\<rparr>) demo_store
      = (c_text ''Invalid state data'' 400, demo_store)
   \<and> authorize_post ((demo_collab (\<lambda>rq. Inr failed_exchange))\<lparr>decodeState := \<lambda>s. Decoded None\<rparr>)
        demo_env ''T9'' 1000
        ((consent_request [CSRF_COOKIE \<mapsto> ''tok-1''])
           \<lparr>formData := Inr [CSRF_FIELD \<mapsto> ''tok-1'', ''state'' \<mapsto> ''e30='']\<rparr>) demo_store
      = (c_text ''Invalid request'' 400, demo_store)
   \<and> clientId (oauthReqInfo \<lparr>oauthReqInfo = demo_request, clearCookie = cookieHeader unbind\<rparr>) \<noteq> []
   \<and> query (callback_request ''T1'' Map.empty) ''code'' = None
   \<and> callback_after (demo_collab (\<lambda>rq. Inr failed_exchange)) demo_env
        (callback_request ''T1'' Map.empty)
        (Inr \<lparr>oauthReqInfo = demo_request, clearCookie = cookieHeader unbind\<rparr>)
      = Inr (c_text ''Missing code'' 400)
   \<and> callback_after (demo_collab (\<lambda>rq. Inr failed_exchange)) demo_env
        (callback_request ''T1'' Map.empty)
        (Inr \<lparr>oauthReqInfo = demo_request\<lparr>clientId := []\<rparr>, clearCookie = cookieHeader unbind\<rparr>)
      = Inr (c_text ''Invalid OAuth request data'' 400)
   \<and> exchange (demo_collab (\<lambda>rq. Inl (Error ''TypeError'' ''fetch failed''))) demo_env
        (callback_request ''T1'' [''code'' \<mapsto> ''xyz''])
        \<lparr>oauthReqInfo = demo_request, clearCookie = cookieHeader unbind\<rparr> ''xyz''
      = Inl (Error ''TypeError'' ''fetch failed'')"
proof -
  let ?co = "demo_collab (\<lambda>rq. Inr failed_exchange)"
  let ?none = "(demo_collab (\<lambda>rq. Inr failed_exchange))\<lparr>decodeState := \<lambda>s. Decoded None\<rparr>"
  let ?down = "demo_collab (\<lambda>rq. Inl (Error ''TypeError'' ''fetch failed''))"
  let ?result = "\<lparr>oauthReqInfo = demo_request, clearCookie = cookieHeader unbind\<rparr>"
  let ?anonymous = "\<lparr>oauthReqInfo = demo_request\<lparr>clientId := []\<rparr>,
                     clearCookie = cookieHeader unbind\<rparr>"
  let ?null = "(consent_request [CSRF_COOKIE \<mapsto> ''tok-1''])
           \<lparr>formData := Inr [CSRF_FIELD \<mapsto> ''tok-1'', ''state'' \<mapsto> null_state]\<rparr>"
  let ?nostate = "(consent_request [CSRF_COOKIE \<mapsto> ''tok-1''])
           \<lparr>formData := Inr [CSRF_FIELD \<mapsto> ''tok-1'']\<rparr>"
  let ?cut = "(consent_request [CSRF_COOKIE \<mapsto> ''tok-1''])
           \<lparr>formData := Inr [CSRF_FIELD \<mapsto> ''tok-1'', ''state'' \<mapsto> ''%%%'']\<rparr>"
  let ?empty = "(consent_request [CSRF_COOKIE \<mapsto> ''tok-1''])
           \<lparr>formData := Inr [CSRF_FIELD \<mapsto> ''tok-1'', ''state'' \<mapsto> ''e30='']\<rparr>"
  let ?message = "''Cannot read properties of null (reading ''
                   @ [CHR 0x27] @ ''oauthReqInfo'' @ [CHR 0x27] @ '')''"
  have f: "fetch ?co (exchange_request ?co demo_env (callback_request ''T1'' [''code'' \<mapsto> ''xyz'']) ''xyz'')
             = Inr failed_exchange"
    by (simp add: demo_collab_def)
  have fdown: "fetch ?down
                 (exchange_request ?down demo_env (callback_request ''T1'' [''code'' \<mapsto> ''xyz'']) ''xyz'')
             = Inl (Error ''TypeError'' ''fetch failed'')"
    by (simp add: demo_collab_def)
  have nok: "\<not> fr_ok failed_exchange"
    by (simp add: failed_exchange_def)
  have fd: "formData (callback_request ''T1'' Map.empty)
      = Inl (Error ''TypeError'' ''Unrecognized Content-Type header value.'')"
    by (simp add: callback_request_def)
  have cid: "clientId (oauthReqInfo ?result) \<noteq> []"
    by (simp add: demo_request_def)
  have nocid: "clientId (oauthReqInfo ?anonymous) = []"
    by simp
  have q: "query (callback_request ''T1'' Map.empty) ''code'' = None"
    by (simp add: callback_request_def)
  have shown: "''Failed to fetch access token: '' @ show_nat (fr_status failed_exchange) @ '' ''
               @ fr_text failed_exchange
             = ''Failed to fetch access token: 401 invalid_client: secret rejected''"
    by (simp add: failed_exchange_def show_nat.simps digit_char_def)
  have dn: "decodeState ?co null_state = DecodedNull"
    by (simp add: demo_collab_def demo_state_def null_state_def)
  have dt: "decodeState ?co ''%%%'' = DecodeThrows"
    by (simp add: demo_collab_def demo_state_def null_state_def)
  have de: "decodeState ?none ''e30='' = Decoded None"
    by simp
  have nf: "formData ?null = Inr [CSRF_FIELD \<mapsto> ''tok-1'', ''state'' \<mapsto> null_state]"
    "validateCSRFToken [CSRF_FIELD \<mapsto> ''tok-1'', ''state'' \<mapsto> null_state] ?null = Inr ()"
    "[CSRF_FIELD \<mapsto> ''tok-1'', ''state'' \<mapsto> null_state] ''state'' = Some null_state"
    "null_state \<noteq> []"
    by (simp_all add: consent_request_def validateCSRFToken_def timingSafeEqual_iff CSRF_FIELD_def
        null_state_def)
  have sf: "formData ?nostate = Inr [CSRF_FIELD \<mapsto> ''tok-1'']"
    "validateCSRFToken [CSRF_FIELD \<mapsto> ''tok-1''] ?nostate = Inr ()"
    "[CSRF_FIELD \<mapsto> ''tok-1''] ''state'' = None"
    by (simp_all add: consent_request_def validateCSRFToken_def timingSafeEqual_iff CSRF_FIELD_def)
  have cf: "formData ?cut = Inr [CSRF_FIELD \<mapsto> ''tok-1'', ''state'' \<mapsto> ''%%%'']"
    "validateCSRFToken [CSRF_FIELD \<mapsto> ''tok-1'', ''state'' \<mapsto> ''%%%''] ?cut = Inr ()"
    "[CSRF_FIELD \<mapsto> ''tok-1'', ''state'' \<mapsto> ''%%%''] ''state'' = Some ''%%%''"
    "''%%%'' \<noteq> []"
    by (simp_all add: consent_request_def validateCSRFToken_def timingSafeEqual_iff CSRF_FIELD_def)
  have ef: "formData ?empty = Inr [CSRF_FIELD \<mapsto> ''tok-1'', ''state'' \<mapsto> ''e30='']"
    "validateCSRFToken [CSRF_FIELD \<mapsto> ''tok-1'', ''state'' \<mapsto> ''e30=''] ?empty = Inr ()"
    "[CSRF_FIELD \<mapsto> ''tok-1'', ''state'' \<mapsto> ''e30=''] ''state'' = Some ''e30=''"
    "''e30='' \<noteq> []"
    by (simp_all add: consent_request_def validateCSRFToken_def timingSafeEqual_iff CSRF_FIELD_def)
  have thrown: "authorize_post_try ?co demo_env ''T9'' 1000 ?null demo_store
      = (Inl (Error ''TypeError'' ?message), demo_store)"
    by (simp add: authorize_post_try_def nf dn truthy_def null_property_error_def)
  have ex: "exchange ?co demo_env (callback_request ''T1'' [''code'' \<mapsto> ''xyz'']) ?result ''xyz''
      = Inr (c_text (''Failed to fetch access token: '' @ show_nat (fr_status failed_exchange)
                       @ '' '' @ fr_text failed_exchange) 500)"
    using error_responses [of ?co demo_env "callback_request ''T1'' [''code'' \<mapsto> ''xyz'']"
        "''TypeError''" "''Unrecognized Content-Type header value.''" "''xyz''" failed_exchange
        ?result "''T9''" 1000 demo_store demo_store Map.empty "[]"] f nok
    by blast
  have st: "authorize_post ?co demo_env ''T9'' 1000 (callback_request ''T1'' Map.empty) demo_store
      = (c_text (''Internal server error: '' @ ''Unrecognized Content-Type header value.'') 500,
         demo_store)"
    and mc: "callback_after ?co demo_env (callback_request ''T1'' Map.empty) (Inr ?result)
      = Inr (c_text ''Missing code'' 400)"
    using error_responses [of ?co demo_env "callback_request ''T1'' Map.empty"
        "''TypeError''" "''Unrecognized Content-Type header value.''" "''xyz''" failed_exchange
        ?result "''T9''" 1000 demo_store demo_store Map.empty "[]"] fd cid q
    by blast+
  have nc: "callback_after ?co demo_env (callback_request ''T1'' Map.empty) (Inr ?anonymous)
      = Inr (c_text ''Invalid OAuth request data'' 400)"
    using error_responses [of ?co demo_env "callback_request ''T1'' Map.empty"
        "''TypeError''" "''Unrecognized Content-Type header value.''" "''xyz''" failed_exchange
        ?anonymous "''T9''" 1000 demo_store demo_store Map.empty "[]"] nocid
    by blast
  have nl: "authorize_post ?co demo_env ''T9'' 1000 ?null demo_store
      = (c_text (''Internal server error: '' @ ?message) 500, demo_store)"
    using error_responses [of ?co demo_env ?null "''TypeError''" ?message "''xyz''" failed_exchange
        ?result "''T9''" 1000 demo_store demo_store
        "[CSRF_FIELD \<mapsto> ''tok-1'', ''state'' \<mapsto> null_state]" null_state] thrown
    by blast
  have ms: "authorize_post ?co demo_env ''T9'' 1000 ?nostate demo_store
      = (c_text ''Missing state in form data'' 400, demo_store)"
    using error_responses [of ?co demo_env ?nostate
        "''TypeError''" "''Unrecognized Content-Type header value.''" "''xyz''" failed_exchange
        ?result "''T9''" 1000 demo_store demo_store
        "[CSRF_FIELD \<mapsto> ''tok-1'']" null_state] sf
    by blast
  have isd: "authorize_post ?co demo_env ''T9'' 1000 ?cut demo_store
      = (c_text ''Invalid state data'' 400, demo_store)"
    using error_responses [of ?co demo_env ?cut
        "''TypeError''" "''Unrecognized Content-Type header value.''" "''xyz''" failed_exchange
        ?result "''T9''" 1000 demo_store demo_store
        "[CSRF_FIELD \<mapsto> ''tok-1'', ''state'' \<mapsto> ''%%%'']" "''%%%''"] cf dt
    by blast
  have ir: "authorize_post ?none demo_env ''T9'' 1000 ?empty demo_store
      = (c_text ''Invalid request'' 400, demo_store)"
    using error_responses [of ?none demo_env ?empty
        "''TypeError''" "''Unrecognized Content-Type header value.''" "''xyz''" failed_exchange
        ?result "''T9''" 1000 demo_store demo_store
        "[CSRF_FIELD \<mapsto> ''tok-1'', ''state'' \<mapsto> ''e30='']" "''e30=''"] ef de
    by blast
  have dw: "exchange ?down demo_env (callback_request ''T1'' [''code'' \<mapsto> ''xyz'']) ?result ''xyz''
      = Inl (Error ''TypeError'' ''fetch failed'')"
    using error_responses [of ?down demo_env "callback_request ''T1'' [''code'' \<mapsto> ''xyz'']"
        "''TypeError''" "''Unrecognized Content-Type header value.''" "''xyz''" failed_exchange
        ?result "''T9''" 1000 demo_store demo_store Map.empty "[]"
        "Error ''TypeError'' ''fetch failed''"] fdown
    by blast
  from ex have ex':
    "exchange ?co demo_env (callback_request ''T1'' [''code'' \<mapsto> ''xyz'']) ?result ''xyz''
      = Inr (c_text ''Failed to fetch access token: 401 invalid_client: secret rejected'' 500)"
    by (simp only: shown)
  from st have st':
    "authorize_post ?co demo_env ''T9'' 1000 (callback_request ''T1'' Map.empty) demo_store
      = (c_text ''Internal server error: Unrecognized Content-Type header value.'' 500, demo_store)"
    by simp
  from nl have nl':
    "authorize_post ?co demo_env ''T9'' 1000 ?null demo_store
      = (c_text (''Internal server error: Cannot read properties of null (reading ''
                   @ [CHR 0x27] @ ''oauthReqInfo'' @ [CHR 0x27] @ '')'') 500, demo_store)"
    by simp
  show ?thesis
    by (intro conjI) (fact f nok ex' fd st' dn thrown nl' ms dt isd ir cid q mc nc dw)+
qed

subsection \<open>\<^verbatim>\<open>getValidDate\<close>\<close>

lemma digit_char_cases:
  "k < 10 \<Longrightarrow> k = 0 \<or> k = 1 \<or> k = 2 \<or> k = 3 \<or> k = 4 \<or> k = 5 \<or> k = 6 \<or> k = 7 \<or> k = 8 \<or> k = (9::nat)"
  by arith

lemma digit_char_is_digit: "class_matches Digit (digit_char n)"
proof -
  have "n mod 10 < length ''0123456789''" by simp
  then have "''0123456789'' ! (n mod 10) \<in> set ''0123456789''" by (rule nth_mem)
  then show ?thesis by (simp add: digit_char_def)
qed

lemma digit_value_digit_char: "digit_value (digit_char n) = n mod 10"
proof -
  have "n mod 10 < 10" by simp
  then show ?thesis
    using digit_char_cases [of "n mod 10"]
    by (auto simp: digit_value_def digit_char_def)
qed

lemma digit_char_not_sep: "digit_char n \<noteq> CHR ''T''" "digit_char n \<noteq> CHR ''-''"
  using digit_char_is_digit [of n] by auto

lemma show_nat_1: "n < 10 \<Longrightarrow> show_nat n = [digit_char n]"
  by (simp add: show_nat.simps)

lemma show_nat_2:
  "10 \<le> n \<Longrightarrow> n < 100 \<Longrightarrow> show_nat n = [digit_char (n div 10), digit_char (n mod 10)]"
  by (subst show_nat.simps) (simp add: show_nat_1)

lemma show_nat_3:
  "100 \<le> n \<Longrightarrow> n < 1000 \<Longrightarrow>
   show_nat n = [digit_char (n div 100), digit_char (n div 10 mod 10), digit_char (n mod 10)]"
  by (subst show_nat.simps) (simp add: show_nat_2 div_mult2_eq [symmetric])

lemma show_nat_4:
  "1000 \<le> n \<Longrightarrow> n < 10000 \<Longrightarrow>
   show_nat n = [digit_char (n div 1000), digit_char (n div 100 mod 10),
                 digit_char (n div 10 mod 10), digit_char (n mod 10)]"
  by (subst show_nat.simps) (simp add: show_nat_3 div_mult2_eq [symmetric])

lemma digit_char_0: "digit_char 0 = CHR ''0''"
  by (simp add: digit_char_def)

lemma pad_2: "n < 100 \<Longrightarrow> pad 2 n = [digit_char (n div 10), digit_char (n mod 10)]"
proof (cases "n < 10")
  case True
  then show ?thesis by (simp add: pad_def show_nat_1 digit_char_0)
next
  case False
  assume "n < 100"
  with False show ?thesis by (simp add: pad_def show_nat_2)
qed

lemma replicate_small:
  "replicate 2 x = [x, x]" "replicate 3 x = [x, x, x]"
  by (simp_all add: numeral_2_eq_2 numeral_3_eq_3)

lemma pad_4:
  assumes "n < 10000"
  shows "pad 4 n = [digit_char (n div 1000), digit_char (n div 100 mod 10),
                    digit_char (n div 10 mod 10), digit_char (n mod 10)]"
proof -
  consider "n < 10" | "10 \<le> n" "n < 100" | "100 \<le> n" "n < 1000" | "1000 \<le> n"
    by linarith
  then show ?thesis
  proof cases
    case 1
    then show ?thesis by (simp add: pad_def show_nat_1 digit_char_0 replicate_small)
  next
    case 2
    then show ?thesis by (simp add: pad_def show_nat_2 digit_char_0 replicate_small)
  next
    case 3
    then show ?thesis by (simp add: pad_def show_nat_3 digit_char_0)
  next
    case 4
    with assms show ?thesis by (simp add: pad_def show_nat_4)
  qed
qed


lemma date_regex_chars:
  "regex_test dateRegex [y1, y2, y3, y4, h1, m1, m2, h2, d1, d2]
     = (class_matches Digit y1 \<and> class_matches Digit y2 \<and> class_matches Digit y3
        \<and> class_matches Digit y4 \<and> h1 = CHR ''-'' \<and> class_matches Digit m1
        \<and> class_matches Digit m2 \<and> h2 = CHR ''-'' \<and> class_matches Digit d1
        \<and> class_matches Digit d2)"
  by (simp add: regex_test_def dateRegex_def numeral_eq_Suc del: class_matches.simps(1))

lemma today_string:
  assumes "valid_clock now"
  shows "split_first (CHR ''T'') (toISOString now)
         = [digit_char (nat (utc_year now) div 1000), digit_char (nat (utc_year now) div 100 mod 10),
            digit_char (nat (utc_year now) div 10 mod 10), digit_char (nat (utc_year now) mod 10),
            CHR ''-'', digit_char (utc_month now div 10), digit_char (utc_month now mod 10),
            CHR ''-'', digit_char (utc_day now div 10), digit_char (utc_day now mod 10)]"
proof -
  have y: "nat (utc_year now) < 10000" and m: "utc_month now < 100" and d: "utc_day now < 100"
    using assms by (auto simp: valid_clock_def)
  have ys: "year_string (utc_year now) = pad 4 (nat (utc_year now))"
    using assms by (simp add: year_string_def valid_clock_def)
  show ?thesis
    by (simp add: split_first_def toISOString_def ys pad_4 [OF y] pad_2 [OF m] pad_2 [OF d]
        digit_char_not_sep)
qed

lemma two_digits: "n < 100 \<Longrightarrow> 10 * (n div 10 mod 10) + n mod 10 = (n::nat)"
  by simp

lemma today_matches:
  assumes "valid_clock now"
  shows "regex_test dateRegex (split_first (CHR ''T'') (toISOString now))"
  by (simp add: today_string [OF assms] date_regex_chars digit_char_is_digit
      del: class_matches.simps)

lemma today_parses:
  assumes "valid_clock now"
  shows "Date_parse_valid (split_first (CHR ''T'') (toISOString now))"
proof -
  have m: "utc_month now < 100" and d: "utc_day now < 100"
    using assms by (auto simp: valid_clock_def)
  show ?thesis
    using assms two_digits [OF m] two_digits [OF d]
    by (simp add: today_string [OF assms] number_value_def IsMonth_def IsDay_def
        digit_value_digit_char valid_clock_def)
qed

lemma regex_nonempty: "regex_test dateRegex s \<Longrightarrow> truthy s"
  by (auto simp: regex_test_def dateRegex_def truthy_def)

text \<open>
  \<^verbatim>\<open>getValidDate\<close> is a total function: it returns its argument when the argument is
  present, matches the pattern and gives a time value that is not NaN, and otherwise the
  date part of the clock's ISO string. With the clock in the years 0 to 9999 the argument
  is returned in no other case and the result always matches the pattern.
\<close>

lemma getValidDate_cases:
  "getValidDate now dateInput
     = (case dateInput of
          None \<Rightarrow> split_first (CHR ''T'') (toISOString now)
        | Some s \<Rightarrow>
            if regex_test dateRegex s \<and> Date_parse_valid s then s
            else split_first (CHR ''T'') (toISOString now))"
  using regex_nonempty by (auto simp: getValidDate_def Let_def split: option.splits)

lemma getValidDate_shape:
  assumes "valid_clock now"
  shows "regex_test dateRegex (getValidDate now dateInput)"
  using today_matches [OF assms] by (simp add: getValidDate_cases split: option.splits)

lemma getValidDate_returns_input:
  assumes "valid_clock now"
  shows "(dateInput = Some (getValidDate now dateInput))
         = (\<exists>s. dateInput = Some s \<and> regex_test dateRegex s \<and> Date_parse_valid s)"
  using today_matches [OF assms] today_parses [OF assms]
  by (auto simp: getValidDate_cases split: option.splits)

text \<open>The result is the \<open>date\<close> field of the body of every request the tool sends.\<close>

lemma getValidDate_sent:
  "\<forall>rq \<in> set (snd (append_to_reflect_daily_notes_dated fetch_fn now this_props content
                      graph_id dateInput)).
     fq_body rq = Raw (JSON_stringify_object
       [(''date'', getValidDate now dateInput), (''text'', content),
        (''transform_type'', ''list-append'')])"
  by (auto simp: append_to_reflect_daily_notes_dated_def not_authenticated_def call_api_def
      daily_notes_request_def Let_def split: option.splits sum.splits)

lemma getValidDate_sent_tasks:
  "\<forall>rq \<in> set (snd (append_to_reflect_daily_notes_tasks fetch_fn now this_props
                      content_opt tasks graph_id dateInput)).
     \<exists>textToAppend. fq_body rq = Raw (JSON_stringify_object
       [(''date'', getValidDate now dateInput), (''text'', textToAppend),
        (''transform_type'', ''list-append''), (''list_name'', ''[[Claude-Notes]]'')])"
  by (auto simp: append_to_reflect_daily_notes_tasks_def not_authenticated_def call_api_def
      daily_notes_request_def Let_def split: option.splits sum.splits)

text \<open>A date of the calendar is returned as it is, so the check never refuses too much.\<close>

lemma calendar_date_parses:
  "valid_calendar_date [y1, y2, y3, y4, h1, m1, m2, h2, d1, d2]
   \<Longrightarrow> Date_parse_valid [y1, y2, y3, y4, h1, m1, m2, h2, d1, d2]"
  by (auto simp: valid_calendar_date_def Let_def IsDay_def IsMonth_def days_in_month_def
      split: if_splits)

lemma calendar_date_returned:
  assumes "valid_calendar_date s"
  shows "getValidDate now (Some s) = s"
proof -
  from assms have re: "regex_test dateRegex s"
    by (simp add: valid_calendar_date_def)
  then have "length s = 10"
    by (auto simp: regex_test_def dateRegex_def dest: list_all2_lengthD)
  then obtain y1 y2 y3 y4 h1 m1 m2 h2 d1 d2
    where s: "s = [y1, y2, y3, y4, h1, m1, m2, h2, d1, d2]"
    by (auto simp: length_Suc_conv numeral_eq_Suc)
  from assms have "Date_parse_valid s"
    unfolding s by (rule calendar_date_parses)
  with re show ?thesis by (simp add: getValidDate_cases)
qed

text \<open>
  C9. \<open>getValidDate\<close> returns a string that is not a date of the calendar: the 30th of
  February 2023 matches the pattern and is not a valid date, yet it is returned as it is,
  for every clock, and so is sent as the \<open>date\<close> of the daily note; the engine carries
  the day into March instead of giving NaN. The same holds for \<^verbatim>\<open>0001-13-01\<close> and
  \<^verbatim>\<open>0012-01-00\<close>, whose month 13 and day 00 the engine's second reading takes as the
  13th of January and the 1st of December. A string of another shape, or one with month
  13 after a year that is no day number, does give today's date.
\<close>

theorem getValidDate_keeps_invalid_dates:
  "regex_test dateRegex ''2023-02-30''
   \<and> \<not> valid_calendar_date ''2023-02-30''
   \<and> getValidDate now (Some ''2023-02-30'') = ''2023-02-30''
   \<and> \<not> valid_calendar_date ''0001-13-01''
   \<and> getValidDate now (Some ''0001-13-01'') = ''0001-13-01''
   \<and> \<not> valid_calendar_date ''0012-01-00''
   \<and> getValidDate now (Some ''0012-01-00'') = ''0012-01-00''
   \<and> getValidDate demo_clock (Some ''2025-13-01'') = ''2026-11-02''
   \<and> getValidDate demo_clock (Some ''30/11/2025'') = ''2026-11-02''
   \<and> getValidDate demo_clock None = ''2026-11-02''
   \<and> snd (append_to_reflect_daily_notes_dated (\<lambda>rq. Inl (Error ''TypeError'' ''fetch failed'')) now
            (Some \<lparr>accessTokenId = None, accessToken = ''at-1''\<rparr>)
            ''note'' ''g1'' (Some ''2023-02-30''))
       = [daily_notes_request ''at-1'' ''g1''
            [(''date'', ''2023-02-30''), (''text'', ''note''),
             (''transform_type'', ''list-append'')]]"
proof -
  have vc: "valid_clock demo_clock"
    by (simp add: valid_clock_def demo_clock_def)
  have today: "split_first (CHR ''T'') (toISOString demo_clock) = ''2026-11-02''"
    using today_string [OF vc] by (simp add: demo_clock_def digit_char_def)
  have re: "regex_test dateRegex ''2023-02-30''" "regex_test dateRegex ''0001-13-01''"
    "regex_test dateRegex ''0012-01-00''" "\<not> regex_test dateRegex ''30/11/2025''"
    by (simp_all add: date_regex_chars)
  have parses: "Date_parse_valid ''2023-02-30''" "Date_parse_valid ''0001-13-01''"
    "Date_parse_valid ''0012-01-00''" "\<not> Date_parse_valid ''2025-13-01''"
    by (simp_all add: number_value_def digit_value_def IsMonth_def IsDay_def
        legacy_date_valid_def)
  have calendar: "\<not> valid_calendar_date ''2023-02-30''" "\<not> valid_calendar_date ''0001-13-01''"
    "\<not> valid_calendar_date ''0012-01-00''"
    by (simp_all add: valid_calendar_date_def number_value_def digit_value_def IsMonth_def
        days_in_month_def leap_year_def)
  have kept: "getValidDate now (Some ''2023-02-30'') = ''2023-02-30''"
    "getValidDate now (Some ''0001-13-01'') = ''0001-13-01''"
    "getValidDate now (Some ''0012-01-00'') = ''0012-01-00''"
    using re parses by (simp_all add: getValidDate_cases)
  have replaced: "getValidDate demo_clock (Some ''2025-13-01'') = ''2026-11-02''"
    "getValidDate demo_clock (Some ''30/11/2025'') = ''2026-11-02''"
    "getValidDate demo_clock None = ''2026-11-02''"
    using re parses by (simp_all add: getValidDate_cases today)
  have sent: "snd (append_to_reflect_daily_notes_dated (\<lambda>rq. Inl (Error ''TypeError'' ''fetch failed'')) now
            (Some \<lparr>accessTokenId = None, accessToken = ''at-1''\<rparr>)
            ''note'' ''g1'' (Some ''2023-02-30''))
       = [daily_notes_request ''at-1'' ''g1''
            [(''date'', ''2023-02-30''), (''text'', ''note''),
             (''transform_type'', ''list-append'')]]"
    by (simp add: append_to_reflect_daily_notes_dated_def call_api_def Let_def kept truthy_def)
  from re(1) calendar kept replaced sent show ?thesis by simp
qed

subsection \<open>The tools without an access token\<close>

lemma not_authenticated_text:
  "not_authenticated
     = ([\<lparr>content_type = ''text'',
          content_text = ''{'' @ [CHR 0x22] @ ''error'' @ [CHR 0x22] @ '':'' @ [CHR 0x22]
            @ ''Not authenticated. Please complete OAuth flow first.'' @ [CHR 0x22] @ ''}''\<rparr>], [])"
  by (simp add: not_authenticated_def error_result_def text_result_def JSON_stringify_object_def
      JSON_quote_def json_escape_def)

lemma error_result_total: "\<exists>t. error_result msg = text_result t"
  unfolding error_result_def by blast

lemma call_api_total: "\<exists>t sent. call_api fetch_fn rq = (text_result t, sent)"
  by (auto simp: call_api_def error_result_total split: sum.splits)

lemma not_authenticated_total: "\<exists>t sent. not_authenticated = (text_result t, sent)"
  by (simp add: not_authenticated_def error_result_total)

text \<open>
  C10. When the agent's props are absent or hold an empty access token, each tool (the
  graph list and every version of the daily-notes tool) returns the one text item
  \<^verbatim>\<open>{"error":"Not authenticated. Please complete OAuth flow first."}\<close> and sends no
  request. The tools are total: a result comes back for every input and every behaviour
  of \<^verbatim>\<open>fetch\<close>.
\<close>

theorem tools_not_authenticated:
  "(this_props = None \<or> (\<exists>p. this_props = Some p \<and> accessToken p = [])
     \<longrightarrow> get_reflect_graphs fetch_fn this_props = not_authenticated
       \<and> append_to_reflect_daily_notes fetch_fn this_props content graph_id = not_authenticated
       \<and> append_to_reflect_daily_notes_dated fetch_fn now this_props content graph_id date
           = not_authenticated
       \<and> append_to_reflect_daily_notes_tasks fetch_fn now this_props content_opt tasks graph_id date
           = not_authenticated)
   \<and> not_authenticated
       = ([\<lparr>content_type = ''text'',
            content_text = ''{'' @ [CHR 0x22] @ ''error'' @ [CHR 0x22] @ '':'' @ [CHR 0x22]
              @ ''Not authenticated. Please complete OAuth flow first.'' @ [CHR 0x22] @ ''}''\<rparr>],
          [])
   \<and> (\<exists>t sent. get_reflect_graphs fetch_fn this_props = (text_result t, sent))
   \<and> (\<exists>t sent. append_to_reflect_daily_notes fetch_fn this_props content graph_id
         = (text_result t, sent))
   \<and> (\<exists>t sent. append_to_reflect_daily_notes_dated fetch_fn now this_props content graph_id date
         = (text_result t, sent))
   \<and> (\<exists>t sent. append_to_reflect_daily_notes_tasks fetch_fn now this_props content_opt tasks
                   graph_id date
         = (text_result t, sent))"
proof -
  have unauth: "this_props = None \<or> (\<exists>p. this_props = Some p \<and> accessToken p = [])
     \<longrightarrow> get_reflect_graphs fetch_fn this_props = not_authenticated
       \<and> append_to_reflect_daily_notes fetch_fn this_props content graph_id = not_authenticated
       \<and> append_to_reflect_daily_notes_dated fetch_fn now this_props content graph_id date
           = not_authenticated
       \<and> append_to_reflect_daily_notes_tasks fetch_fn now this_props content_opt tasks graph_id date
           = not_authenticated"
    by (auto simp: get_reflect_graphs_def append_to_reflect_daily_notes_def
        append_to_reflect_daily_notes_dated_def append_to_reflect_daily_notes_tasks_def truthy_def)
  have t1: "\<exists>t sent. get_reflect_graphs fetch_fn this_props = (text_result t, sent)"
    by (cases this_props)
      (simp_all add: get_reflect_graphs_def call_api_total not_authenticated_total)
  have t2: "\<exists>t sent. append_to_reflect_daily_notes fetch_fn this_props content graph_id
         = (text_result t, sent)"
    by (cases this_props)
      (simp_all add: append_to_reflect_daily_notes_def call_api_total not_authenticated_total)
  have t3: "\<exists>t sent. append_to_reflect_daily_notes_dated fetch_fn now this_props content graph_id date
         = (text_result t, sent)"
    by (cases this_props)
      (simp_all add: append_to_reflect_daily_notes_dated_def Let_def call_api_total
        not_authenticated_total)
  have t4: "\<exists>t sent. append_to_reflect_daily_notes_tasks fetch_fn now this_props content_opt tasks
                   graph_id date
         = (text_result t, sent)"
    by (cases this_props)
      (simp_all add: append_to_reflect_daily_notes_tasks_def Let_def call_api_total
        not_authenticated_total error_result_total)
  from unauth not_authenticated_text t1 t2 t3 t4 show ?thesis by blast
qed

theorem tools_not_authenticated_witness:
  "get_reflect_graphs (\<lambda>rq. Inr token_response) None
     = ([\<lparr>content_type = ''text'',
          content_text = ''{'' @ [CHR 0x22] @ ''error'' @ [CHR 0x22] @ '':'' @ [CHR 0x22]
            @ ''Not authenticated. Please complete OAuth flow first.'' @ [CHR 0x22] @ ''}''\<rparr>],
        [])
   \<and> append_to_reflect_daily_notes (\<lambda>rq. Inr token_response)
        (Some \<lparr>accessTokenId = None, accessToken = []\<rparr>) ''hello'' ''g1''
     = ([\<lparr>content_type = ''text'',
          content_text = ''{'' @ [CHR 0x22] @ ''error'' @ [CHR 0x22] @ '':'' @ [CHR 0x22]
            @ ''Not authenticated. Please complete OAuth flow first.'' @ [CHR 0x22] @ ''}''\<rparr>],
        [])"
  using tools_not_authenticated [of None "\<lambda>rq. Inr token_response" "''hello''" "''g1''"
      demo_clock None None None]
    tools_not_authenticated [of "Some \<lparr>accessTokenId = None, accessToken = []\<rparr>"
      "\<lambda>rq. Inr token_response" "''hello''" "''g1''" demo_clock None None None]
  by simp

end
